theory Spec2Isabelle
  imports Main
begin

section \<open>DeployX: platform contract, credential resolution and deployment strategies\<close>

text \<open>
  A shallow embedding of the deployment platforms of DeployX
  (\<^verbatim>\<open>platforms/github\<close>, \<^verbatim>\<open>platforms/netlify\<close>, \<^verbatim>\<open>platforms/vercel\<close>,
  \<^verbatim>\<open>platforms/railway\<close>) and of the authentication commands (\<^verbatim>\<open>commands/auth.py\<close>).
  Everything the Python code asks of the outside world (sub-processes, files, the
  environment, remote APIs, git) is an explicit argument of the model; Python exceptions
  are values of type \<open>exn\<close>, and a call that may raise returns \<open>exn + 'a\<close>.
\<close>

subsection \<open>Python strings\<close>

text \<open>\<^verbatim>\<open>str.split(sep)\<close> for a one-character separator: the parts between the separators,
  empty parts included; the empty string splits into one empty part.\<close>

fun split :: "char \<Rightarrow> string \<Rightarrow> string list" where
  "split c [] = [[]]"
| "split c (x # xs) =
     (if x = c then [] # split c xs
      else (case split c xs of
              [] \<Rightarrow> [[x]]
            | p # ps \<Rightarrow> (x # p) # ps))"

text \<open>\<^verbatim>\<open>str.strip()\<close>: leading and trailing whitespace removed. A \<open>char\<close> stands for a
  code point below 256; the whitespace code points there are 9 to 13, 28 to 32, 133 and 160.\<close>

definition isspace :: "char \<Rightarrow> bool" where
  "isspace c = (of_char c \<in> {9, 10, 11, 12, 13, 28, 29, 30, 31, 32, 133, 160 :: nat})"

definition strip :: "string \<Rightarrow> string" where
  "strip s = rev (dropWhile isspace (rev (dropWhile isspace s)))"

text \<open>\<^verbatim>\<open>str.lower()\<close> on the ASCII letters.\<close>

definition lower_char :: "char \<Rightarrow> char" where
  "lower_char c =
     (case map_of (zip ''ABCDEFGHIJKLMNOPQRSTUVWXYZ'' ''abcdefghijklmnopqrstuvwxyz'') c of
        None \<Rightarrow> c
      | Some l \<Rightarrow> l)"

definition lower :: "string \<Rightarrow> string" where
  "lower s = map lower_char s"

text \<open>\<^verbatim>\<open>sub in s\<close> for strings.\<close>

fun startswith :: "string \<Rightarrow> string \<Rightarrow> bool" where
  "startswith s [] = True"
| "startswith [] (y # ys) = False"
| "startswith (x # xs) (y # ys) = (x = y \<and> startswith xs ys)"

fun contains :: "string \<Rightarrow> string \<Rightarrow> bool" where
  "contains [] sub = (sub = [])"
| "contains (x # xs) sub = (startswith (x # xs) sub \<or> contains xs sub)"

text \<open>\<^verbatim>\<open>str(n)\<close> for a natural number: its decimal digits.\<close>

definition digit :: "nat \<Rightarrow> char" where
  "digit d = ''0123456789'' ! d"

function str_nat :: "nat \<Rightarrow> string" where
  "str_nat n = (if n < 10 then [digit n] else str_nat (n div 10) @ [digit (n mod 10)])"
  by pat_completeness auto
termination
  by (relation "measure id") auto

text \<open>The truth value Python gives an \<^verbatim>\<open>Optional[str]\<close>: \<^verbatim>\<open>None\<close> and the empty string
  are false.\<close>

definition truthy :: "string option \<Rightarrow> bool" where
  "truthy t = (case t of None \<Rightarrow> False | Some s \<Rightarrow> s \<noteq> [])"

subsection \<open>Exceptions and the result types of \<^verbatim>\<open>platforms/base.py\<close>\<close>

text \<open>The exception classes the code distinguishes; each carries the text \<^verbatim>\<open>str(e)\<close>
  gives, \<open>GithubException\<close> also its HTTP status. \<open>PyException\<close> is any other exception.\<close>

datatype exn =
    GitCommandError string
  | GithubException nat string
  | ConnectionError string
  | Timeout string
  | OSError string
  | AttributeError string
  | PyException string

fun str_exn :: "exn \<Rightarrow> string" where
  "str_exn (GitCommandError m) = m"
| "str_exn (GithubException st m) = m"
| "str_exn (ConnectionError m) = m"
| "str_exn (Timeout m) = m"
| "str_exn (OSError m) = m"
| "str_exn (AttributeError m) = m"
| "str_exn (PyException m) = m"

text \<open>\<^verbatim>\<open>except (OSError, PermissionError)\<close>: \<^verbatim>\<open>PermissionError\<close> is a subclass of
  \<^verbatim>\<open>OSError\<close>, and so are the connection and timeout errors of \<^verbatim>\<open>requests\<close>.\<close>

fun is_OSError :: "exn \<Rightarrow> bool" where
  "is_OSError (OSError m) = True"
| "is_OSError (ConnectionError m) = True"
| "is_OSError (Timeout m) = True"
| "is_OSError e = False"

text \<open>The two dataclasses. The field \<^verbatim>\<open>status\<close> is annotated \<^verbatim>\<open>str\<close>, which Python does not
  enforce: it holds whatever the constructor is given, a string or \<^verbatim>\<open>None\<close>.\<close>

record DeploymentResult =
  success :: bool
  url :: "string option"
  message :: string
  deployment_id :: "string option"

record DeploymentStatus =
  status :: "string option"
  status_url :: "string option"
  last_updated :: "string option"
  status_message :: string

text \<open>The helpers of \<^verbatim>\<open>utils/errors.py\<close> are not among the sources; the code uses only
  the \<^verbatim>\<open>message\<close> of the error object each returns, so each is a parameter that maps its
  arguments to that message.\<close>

record error_helpers =
  handle_auth_error :: "string \<Rightarrow> string \<Rightarrow> string"
  handle_github_api_error :: "nat \<Rightarrow> string \<Rightarrow> string"
  handle_git_error :: "string \<Rightarrow> string"
  handle_build_error :: "string \<Rightarrow> string"

subsection \<open>GitHub Pages URL\<close>

text \<open>\<^verbatim>\<open>GitHubPlatform.get_url\<close>: \<open>repo_name\<close> is the configured \<^verbatim>\<open>github.repo\<close>,
  \<open>None\<close> when the configuration has none.\<close>

definition get_url :: "string option \<Rightarrow> string option" where
  "get_url repo_name =
     (case repo_name of
        None \<Rightarrow> None
      | Some rn \<Rightarrow>
          if rn = [] then None
          else (case split CHR ''/'' rn of
                  [username, repo] \<Rightarrow>
                    if repo = username @ ''.github.io''
                    then Some (''https://'' @ username @ ''.github.io'')
                    else Some (''https://'' @ username @ ''.github.io/'' @ repo)
                | _ \<Rightarrow> None))"

text \<open>\<^verbatim>\<open>GitHubDeployment._generate_pages_url\<close>: the same computation, with the empty
  string where \<^verbatim>\<open>get_url\<close> has \<open>None\<close>.\<close>

definition generate_pages_url :: "string option \<Rightarrow> string" where
  "generate_pages_url repo_name =
     (case repo_name of
        None \<Rightarrow> []
      | Some rn \<Rightarrow>
          if rn = [] then []
          else (case split CHR ''/'' rn of
                  [username, repo] \<Rightarrow>
                    if repo = username @ ''.github.io''
                    then ''https://'' @ username @ ''.github.io''
                    else ''https://'' @ username @ ''.github.io/'' @ repo
                | _ \<Rightarrow> []))"

subsection \<open>The outside world of a platform\<close>

datatype backend = GitHub | Netlify | Vercel | Railway

text \<open>The platform identifier, as passed to \<^verbatim>\<open>handle_auth_error\<close>.\<close>

fun backend_id :: "backend \<Rightarrow> string" where
  "backend_id GitHub = ''github''"
| "backend_id Netlify = ''netlify''"
| "backend_id Vercel = ''vercel''"
| "backend_id Railway = ''railway''"

text \<open>The file each \<^verbatim>\<open>_get_token\<close> reads in the working directory, and the environment
  variable it falls back to.\<close>

fun token_file :: "backend \<Rightarrow> string" where
  "token_file GitHub = ''.deployx_token''"
| "token_file Netlify = ''.deployx_netlify_token''"
| "token_file Vercel = ''.deployx_vercel_token''"
| "token_file Railway = ''.deployx_railway_token''"

fun env_var :: "backend \<Rightarrow> string" where
  "env_var GitHub = ''GITHUB_TOKEN''"
| "env_var Netlify = ''NETLIFY_TOKEN''"
| "env_var Vercel = ''VERCEL_TOKEN''"
| "env_var Railway = ''RAILWAY_TOKEN''"

text \<open>A file of the working directory: absent, present but failing to be read, or present
  with its text.\<close>

datatype file_state = Missing | Unreadable | Content string

text \<open>What \<^verbatim>\<open>subprocess.run\<close> does with the status command of a backend's CLI tool
  (\<^verbatim>\<open>gh auth status\<close>, \<^verbatim>\<open>netlify status\<close>, \<^verbatim>\<open>vercel whoami\<close>, \<^verbatim>\<open>railway whoami\<close>): it raises
  \<^verbatim>\<open>FileNotFoundError\<close> because there is no such executable, it raises another exception
  (\<^verbatim>\<open>PermissionError\<close> when the file found may not be executed), or the tool runs and gives
  a return code and its standard output.\<close>

datatype probe = ToolMissing | ToolFails exn | ToolRan int string

text \<open>The local machine as the platforms see it: \<open>cli_probe\<close> is the run of the status
  command; \<open>cli_get_token\<close> is the result of the method \<^verbatim>\<open>get_token\<close> of the backend's
  \<^verbatim>\<open>CLIIntegration\<close> class, which catches every exception and gives \<^verbatim>\<open>None\<close> when the
  tool's token cannot be read; \<open>files\<close> is the working directory; \<open>getenv\<close> is
  \<^verbatim>\<open>os.getenv\<close>; \<open>cwd_basename\<close> is \<^verbatim>\<open>os.path.basename(os.getcwd())\<close>.\<close>

record world =
  cli_probe :: "backend \<Rightarrow> probe"
  cli_get_token :: "backend \<Rightarrow> string option"
  files :: "string \<Rightarrow> file_state"
  getenv :: "string \<Rightarrow> string option"
  cwd_basename :: string

text \<open>The four methods \<^verbatim>\<open>is_cli_available\<close> (\<^verbatim>\<open>platforms/*/cli_integration.py\<close>): the return
  code is compared with 0 (for Netlify the output must also contain \<open>Logged in\<close>);
  \<^verbatim>\<open>FileNotFoundError\<close> is caught and gives \<^verbatim>\<open>False\<close>; no other exception is caught.\<close>

definition is_cli_available :: "world \<Rightarrow> backend \<Rightarrow> exn + bool" where
  "is_cli_available w b =
     (case cli_probe w b of
        ToolMissing \<Rightarrow> Inr False
      | ToolFails e \<Rightarrow> Inl e
      | ToolRan returncode stdout \<Rightarrow>
          Inr (if b = Netlify then returncode = 0 \<and> contains stdout ''Logged in''
               else returncode = 0))"

text \<open>The remote services, as functions of the bearer token a request carries.
  \<open>validate_token\<close>, \<open>list_projects\<close> and the \<open>auto_create\<close> functions stand for the
  methods of that name of the \<^verbatim>\<open>APIIntegration\<close> and \<^verbatim>\<open>AutoCreation\<close> classes, each of which
  catches every exception and returns a tuple; the three \<open>gh\<close> functions are the PyGithub
  calls of \<^verbatim>\<open>GitHubPlatform.validate_credentials\<close>, which may raise.\<close>

record remote =
  validate_token :: "backend \<Rightarrow> string \<Rightarrow> bool \<times> string"
  auto_create :: "backend \<Rightarrow> string \<Rightarrow> string \<Rightarrow> bool \<times> string \<times> string option"
  auto_create_complete_setup ::
    "string \<Rightarrow> string \<Rightarrow> bool \<times> string \<times> (string option \<times> string option \<times> string option) option"
  list_projects :: "string \<Rightarrow> bool \<times> nat \<times> string"
  gh_get_user :: "string \<Rightarrow> exn + string"
  gh_get_repo :: "string \<Rightarrow> string \<Rightarrow> exn + unit"
  gh_get_collaborator_permission :: "string \<Rightarrow> string \<Rightarrow> string \<Rightarrow> exn + string"

subsection \<open>Credential resolution: \<^verbatim>\<open>_get_token\<close>\<close>

text \<open>The four \<^verbatim>\<open>_get_token\<close> methods (\<^verbatim>\<open>platforms/*/platform.py\<close>) are the same code up to
  the file and variable names: the CLI tool when it is available and gives a non-empty
  token; else the token file, stripped, when it exists, can be read and is not empty;
  else whatever \<^verbatim>\<open>os.getenv\<close> returns. The call of \<^verbatim>\<open>is_cli_available\<close> is outside the
  \<^verbatim>\<open>try\<close> block that guards the file, so an exception of it leaves \<^verbatim>\<open>_get_token\<close>. (The
  module \<^verbatim>\<open>platforms/railway.py\<close> is shadowed by the package \<^verbatim>\<open>platforms/railway\<close>, which is
  what \<^verbatim>\<open>commands/auth.py\<close> imports; it is not part of the program and is not modelled.)\<close>

definition get_token :: "backend \<Rightarrow> world \<Rightarrow> exn + string option" where
  "get_token b w =
     (case is_cli_available w b of
        Inl e \<Rightarrow> Inl e
      | Inr available \<Rightarrow>
          if available \<and> truthy (cli_get_token w b) then Inr (cli_get_token w b)
          else (case files w (token_file b) of
                  Content body \<Rightarrow>
                    if strip body \<noteq> [] then Inr (Some (strip body))
                    else Inr (getenv w (env_var b))
                | Unreadable \<Rightarrow> Inr (getenv w (env_var b))
                | Missing \<Rightarrow> Inr (getenv w (env_var b))))"

text \<open>The resolution order in the words of the specification: three sources, each
  yielding a value or nothing, tried in the order CLI tool, token file, environment
  variable; the first value wins. A CLI tool that is missing, cannot be run or is not
  logged in yields nothing.\<close>

datatype source = CliTool | TokenFile | EnvVar

fun source_value :: "backend \<Rightarrow> world \<Rightarrow> source \<Rightarrow> string option" where
  "source_value b w CliTool =
     (case is_cli_available w b of
        Inl e \<Rightarrow> None
      | Inr available \<Rightarrow>
          if available then
            (case cli_get_token w b of None \<Rightarrow> None | Some t \<Rightarrow> if t = [] then None else Some t)
          else None)"
| "source_value b w TokenFile =
     (case files w (token_file b) of
        Content body \<Rightarrow> if strip body = [] then None else Some (strip body)
      | Unreadable \<Rightarrow> None
      | Missing \<Rightarrow> None)"
| "source_value b w EnvVar =
     (case getenv w (env_var b) of None \<Rightarrow> None | Some t \<Rightarrow> if t = [] then None else Some t)"

fun first_success :: "'a option list \<Rightarrow> 'a option" where
  "first_success [] = None"
| "first_success (None # xs) = first_success xs"
| "first_success (Some v # xs) = Some v"

definition resolve_credential :: "backend \<Rightarrow> world \<Rightarrow> string option" where
  "resolve_credential b w = first_success (map (source_value b w) [CliTool, TokenFile, EnvVar])"

subsection \<open>The platform objects\<close>

text \<open>The attributes the four platform classes share: \<open>token\<close>, and \<open>auto_creation\<close>, which
  is \<^verbatim>\<open>None\<close> or an object built from a token (the model keeps that token). The three
  API platforms add \<open>use_cli\<close> and \<open>api_integration\<close>, again \<^verbatim>\<open>None\<close> or an object whose
  request headers were built from a token at its construction.\<close>

record platform =
  token :: "string option"
  auto_creation :: "string option"

record api_platform = platform +
  use_cli :: bool
  api_integration :: "string option"

record netlify_platform = api_platform +
  site_id :: "string option"
  custom_domain :: "string option"

record vercel_platform = api_platform +
  project_name :: "string option"
  framework :: "string option"

record railway_platform = api_platform +
  project_id :: "string option"
  service_id :: "string option"
  environment_id :: "string option"

text \<open>\<^verbatim>\<open>GitHubPlatform\<close>: \<open>deploy_method\<close> is the attribute \<^verbatim>\<open>method\<close>;
  \<open>github_client\<close> is \<^verbatim>\<open>None\<close> or the client, built from a token;
  \<open>repo_obj\<close> is \<^verbatim>\<open>None\<close> or the repository fetched; \<open>deployment_repo_name\<close> is the
  \<^verbatim>\<open>repo_name\<close> of the \<^verbatim>\<open>GitHubDeployment\<close> object. Neither \<^verbatim>\<open>GitHubPlatform\<close> nor
  \<^verbatim>\<open>BasePlatform\<close> assigns the attribute \<^verbatim>\<open>logger\<close>; the second base class,
  \<^verbatim>\<open>PlatformEnvInterface\<close>, is not among the sources, so whether it provides one is the
  field \<open>has_logger\<close>.\<close>

record github_platform = platform +
  repo_name :: "string option"
  deploy_method :: string
  branch :: string
  github_client :: "string option"
  repo_obj :: "string option"
  env_management :: bool
  deployment_repo_name :: "string option"
  has_logger :: bool

text \<open>The constructors: \<^verbatim>\<open>__init__\<close> resolves the token once and builds the helper objects
  from it when it is not empty. An exception of \<^verbatim>\<open>_get_token\<close> leaves the constructor.\<close>

definition when_truthy :: "string option \<Rightarrow> string option" where
  "when_truthy t = (if truthy t then t else None)"

definition netlify_init ::
  "string option \<Rightarrow> string option \<Rightarrow> bool \<Rightarrow> world \<Rightarrow> exn + netlify_platform" where
  "netlify_init sid cdom cli w =
     (case get_token Netlify w of
        Inl e \<Rightarrow> Inl e
      | Inr t \<Rightarrow>
          Inr \<lparr>token = t, auto_creation = when_truthy t, use_cli = cli,
               api_integration = when_truthy t, site_id = sid, custom_domain = cdom\<rparr>)"

definition vercel_init ::
  "string option \<Rightarrow> string option \<Rightarrow> bool \<Rightarrow> world \<Rightarrow> exn + vercel_platform" where
  "vercel_init project fw cli w =
     (case get_token Vercel w of
        Inl e \<Rightarrow> Inl e
      | Inr t \<Rightarrow>
          Inr \<lparr>token = t, auto_creation = when_truthy t, use_cli = cli,
               api_integration = when_truthy t, project_name = project, framework = fw\<rparr>)"

definition railway_init ::
  "string option \<Rightarrow> string option \<Rightarrow> string option \<Rightarrow> bool \<Rightarrow> world \<Rightarrow> exn + railway_platform" where
  "railway_init pid sid eid cli w =
     (case get_token Railway w of
        Inl e \<Rightarrow> Inl e
      | Inr t \<Rightarrow>
          Inr \<lparr>token = t, auto_creation = when_truthy t, use_cli = cli,
               api_integration = when_truthy t,
               project_id = pid, service_id = sid, environment_id = eid\<rparr>)"

definition github_init ::
  "string option \<Rightarrow> string \<Rightarrow> string \<Rightarrow> bool \<Rightarrow> world \<Rightarrow> exn + github_platform" where
  "github_init repo m br lg w =
     (case get_token GitHub w of
        Inl e \<Rightarrow> Inl e
      | Inr t \<Rightarrow>
          Inr \<lparr>token = t, auto_creation = when_truthy t,
               repo_name = repo, deploy_method = m, branch = br, github_client = None,
               repo_obj = None, env_management = False, deployment_repo_name = repo,
               has_logger = lg\<rparr>)"

subsection \<open>\<^verbatim>\<open>validate_credentials\<close>\<close>

text \<open>A call returns a value or raises, and leaves the platform object as it has mutated
  it up to that point. \<^verbatim>\<open>self.logger\<close> is assigned by none of \<^verbatim>\<open>NetlifyPlatform\<close>,
  \<^verbatim>\<open>VercelPlatform\<close>, \<^verbatim>\<open>RailwayPlatform\<close> and their base class \<^verbatim>\<open>BasePlatform\<close>, so the
  statement \<^verbatim>\<open>self.logger.info(...)\<close> raises \<^verbatim>\<open>AttributeError\<close> there.\<close>

type_synonym 'p validation = "(exn + bool \<times> string) \<times> 'p"

definition no_logger :: "string \<Rightarrow> exn" where
  "no_logger cls = AttributeError (cls @ '' object has no attribute logger'')"

definition no_attribute_of_None :: "string \<Rightarrow> exn" where
  "no_attribute_of_None attr = AttributeError (''NoneType object has no attribute '' @ attr)"

text \<open>The body of \<^verbatim>\<open>NetlifyPlatform.validate_credentials\<close>. It starts by resolving the
  token again; an exception of \<^verbatim>\<open>_get_token\<close> leaves it, as in the Vercel and Railway
  platforms.\<close>

definition netlify_validate_credentials_body ::
  "error_helpers \<Rightarrow> world \<Rightarrow> remote \<Rightarrow> netlify_platform \<Rightarrow> netlify_platform validation" where
  "netlify_validate_credentials_body E w R p =
     (case get_token Netlify w of
        Inl e \<Rightarrow> (Inl e, p)
      | Inr refreshed \<Rightarrow>
      let p1 = p\<lparr>token := refreshed\<rparr> in
      case when_truthy (token p1) of
        None \<Rightarrow> (Inr (False, handle_auth_error E ''netlify'' ''No token provided''), p1)
      | Some t \<Rightarrow>
          let p2 = (if api_integration p1 = None then p1\<lparr>api_integration := Some t\<rparr> else p1);
              p3 = (if auto_creation p2 = None then p2\<lparr>auto_creation := Some t\<rparr> else p2)
          in (case api_integration p3 of
                None \<Rightarrow> (Inl (no_attribute_of_None ''validate_token''), p3)
              | Some api_token \<Rightarrow>
                  (case validate_token R Netlify api_token of
                     (valid, msg) \<Rightarrow>
                       if \<not> valid then (Inr (False, msg), p3)
                       else (case auto_creation p3 of
                               None \<Rightarrow> (Inr (True, msg), p3)
                             | Some creation_token \<Rightarrow>
                                 if truthy (site_id p3) then (Inr (True, msg), p3)
                                 else (case auto_create R Netlify creation_token (cwd_basename w) of
                                         (ok, site_message, new_site_id) \<Rightarrow>
                                           if ok \<and> truthy new_site_id
                                           then (Inl (no_logger ''NetlifyPlatform''),
                                                 p3\<lparr>site_id := new_site_id\<rparr>)
                                           else if \<not> ok
                                           then (Inr (False, ''Site creation failed: '' @ site_message), p3)
                                           else (Inr (True, msg), p3))))))"

text \<open>The body of \<^verbatim>\<open>VercelPlatform.validate_credentials\<close>; \<open>list_projects\<close> gives the
  success flag, the number of projects and the message.\<close>

definition vercel_list_projects :: "remote \<Rightarrow> vercel_platform \<Rightarrow> vercel_platform validation" where
  "vercel_list_projects R p =
     (case api_integration p of
        None \<Rightarrow> (Inr (False, ''No API integration available''), p)
      | Some api_token \<Rightarrow>
          (case list_projects R api_token of
             (ok, n, msg) \<Rightarrow>
               if ok
               then (Inr (True, ''Vercel credentials valid - '' @ str_nat n @ '' projects accessible''), p)
               else (Inr (False, ''Token validation failed: '' @ msg), p)))"

definition vercel_validate_credentials_body ::
  "error_helpers \<Rightarrow> world \<Rightarrow> remote \<Rightarrow> vercel_platform \<Rightarrow> vercel_platform validation" where
  "vercel_validate_credentials_body E w R p =
     (case get_token Vercel w of
        Inl e \<Rightarrow> (Inl e, p)
      | Inr refreshed \<Rightarrow>
      let p1 = p\<lparr>token := refreshed\<rparr> in
      case when_truthy (token p1) of
        None \<Rightarrow> (Inr (False, handle_auth_error E ''vercel'' ''No token provided''), p1)
      | Some t \<Rightarrow>
          let p2 = (if api_integration p1 = None then p1\<lparr>api_integration := Some t\<rparr> else p1);
              p3 = (if auto_creation p2 = None then p2\<lparr>auto_creation := Some t\<rparr> else p2)
          in (case auto_creation p3 of
                None \<Rightarrow> vercel_list_projects R p3
              | Some creation_token \<Rightarrow>
                  if truthy (project_name p3) then vercel_list_projects R p3
                  else (case auto_create R Vercel creation_token (cwd_basename w) of
                          (ok, msg, project_url) \<Rightarrow>
                            if ok \<and> truthy project_url
                            then (Inl (no_logger ''VercelPlatform''),
                                  p3\<lparr>project_name := Some (cwd_basename w)\<rparr>)
                            else if \<not> ok
                            then (Inr (False, ''Project creation failed: '' @ msg), p3)
                            else vercel_list_projects R p3)))"

text \<open>The body of \<^verbatim>\<open>RailwayPlatform.validate_credentials\<close>; the setup information is the
  triple of project, service and environment identifiers.\<close>

definition railway_validate_credentials_body ::
  "error_helpers \<Rightarrow> world \<Rightarrow> remote \<Rightarrow> railway_platform \<Rightarrow> railway_platform validation" where
  "railway_validate_credentials_body E w R p =
     (case get_token Railway w of
        Inl e \<Rightarrow> (Inl e, p)
      | Inr refreshed \<Rightarrow>
      let p1 = p\<lparr>token := refreshed\<rparr> in
      case when_truthy (token p1) of
        None \<Rightarrow> (Inr (False, handle_auth_error E ''railway'' ''No token provided''), p1)
      | Some t \<Rightarrow>
          let p2 = (if api_integration p1 = None then p1\<lparr>api_integration := Some t\<rparr> else p1);
              p3 = (if auto_creation p2 = None then p2\<lparr>auto_creation := Some t\<rparr> else p2)
          in (case api_integration p3 of
                None \<Rightarrow> (Inl (no_attribute_of_None ''validate_token''), p3)
              | Some api_token \<Rightarrow>
                  (case validate_token R Railway api_token of
                     (valid, msg) \<Rightarrow>
                       if \<not> valid then (Inr (False, msg), p3)
                       else (case auto_creation p3 of
                               None \<Rightarrow> (Inr (True, msg), p3)
                             | Some creation_token \<Rightarrow>
                                 if truthy (project_id p3) then (Inr (True, msg), p3)
                                 else (case auto_create_complete_setup R creation_token (cwd_basename w) of
                                         (ok, setup_message, Some (pid, sid, eid)) \<Rightarrow>
                                           if ok
                                           then (Inl (no_logger ''RailwayPlatform''),
                                                 p3\<lparr>project_id := pid, service_id := sid,
                                                    environment_id := eid\<rparr>)
                                           else (Inr (False, ''Setup creation failed: '' @ setup_message), p3)
                                       | (ok, setup_message, None) \<Rightarrow>
                                           if \<not> ok
                                           then (Inr (False, ''Setup creation failed: '' @ setup_message), p3)
                                           else (Inr (True, msg), p3))))))"

text \<open>The body of \<^verbatim>\<open>GitHubPlatform.validate_credentials\<close>. It reads \<^verbatim>\<open>self.token\<close> as
  the constructor left it. The handlers of its \<^verbatim>\<open>try\<close> block catch connection errors,
  timeouts and \<^verbatim>\<open>GithubException\<close>; any other exception leaves the method.\<close>

definition github_handlers :: "error_helpers \<Rightarrow> exn \<Rightarrow> exn + bool \<times> string" where
  "github_handlers E e =
     (case e of
        ConnectionError m \<Rightarrow> Inr (False, handle_auth_error E ''github'' (''Network error: '' @ m))
      | Timeout m \<Rightarrow> Inr (False, handle_auth_error E ''github'' (''Network error: '' @ m))
      | GithubException st m \<Rightarrow> Inr (False, handle_github_api_error E st m)
      | _ \<Rightarrow> Inl e)"

definition github_check_access ::
  "error_helpers \<Rightarrow> remote \<Rightarrow> string \<Rightarrow> string \<Rightarrow> github_platform \<Rightarrow> github_platform validation" where
  "github_check_access E R t rn p =
     (let p1 = p\<lparr>github_client := Some t\<rparr> in
      case gh_get_user R t of
        Inl e \<Rightarrow> (github_handlers E e, p1)
      | Inr login \<Rightarrow>
          (case gh_get_repo R t rn of
             Inl e \<Rightarrow> (github_handlers E e, p1)
           | Inr _ \<Rightarrow>
               let p2 = p1\<lparr>repo_obj := Some rn, env_management := True\<rparr> in
               (case gh_get_collaborator_permission R t rn login of
                  Inr permissions \<Rightarrow>
                    if permissions \<noteq> ''admin'' \<and> permissions \<noteq> ''write''
                    then (Inr (False, handle_auth_error E ''github''
                                        ''Insufficient repository permissions''), p2)
                    else (Inr (True, ''GitHub credentials valid for user: '' @ login), p2)
                | Inl _ \<Rightarrow> (Inr (True, ''GitHub credentials valid for user: '' @ login), p2))))"

definition github_validate_credentials_body ::
  "error_helpers \<Rightarrow> world \<Rightarrow> remote \<Rightarrow> github_platform \<Rightarrow> github_platform validation" where
  "github_validate_credentials_body E w R p =
     (case when_truthy (token p) of
        None \<Rightarrow> (Inr (False, handle_auth_error E ''github'' ''No token provided''), p)
      | Some t \<Rightarrow>
          let created =
                (case auto_creation p of
                   None \<Rightarrow> Inr p
                 | Some creation_token \<Rightarrow>
                     if truthy (repo_name p) then Inr p
                     else (case auto_create R GitHub creation_token (cwd_basename w) of
                             (ok, msg, repo_full_name) \<Rightarrow>
                               if ok \<and> truthy repo_full_name
                               then (let p1 = p\<lparr>repo_name := repo_full_name,
                                                deployment_repo_name := repo_full_name\<rparr>
                                     in if has_logger p1 then Inr p1 else Inl p1)
                               else Inr p))
          in (case created of
                Inl p1 \<Rightarrow> (Inl (no_logger ''GitHubPlatform''), p1)
              | Inr p1 \<Rightarrow>
                  (case when_truthy (repo_name p1) of
                     None \<Rightarrow> (Inr (False, ''Repository name not configured''), p1)
                   | Some rn \<Rightarrow> github_check_access E R t rn p1)))"

text \<open>Modelled from the spec: the decorator \<^verbatim>\<open>retry_with_backoff\<close> of \<^verbatim>\<open>utils/errors.py\<close>,
  which is not among the sources. By sections 4.3, 7 and 8 of the specification a call is
  attempted up to 3 times in total; a call that returns is returned as it is; only a
  transient failure (a connection failure, a timeout, a 5xx-class server response) is
  retried; any other failure is fatal on first occurrence; when the last attempt fails
  with a transient failure the decorated call returns a failure whose message is the last
  error's message with a prefix saying that the retries are exhausted. Two things the
  specification does not settle are parameters of the model: the prefix
  (\<open>exhausted_message\<close>), and what becomes of an exception that is not transient
  (\<open>on_fatal\<close>: raised again, or turned into a result).\<close>

fun transient :: "exn \<Rightarrow> bool" where
  "transient (ConnectionError m) = True"
| "transient (Timeout m) = True"
| "transient (GithubException st m) = (500 \<le> st \<and> st < 600)"
| "transient e = False"

record retry_policy =
  exhausted_message :: "string \<Rightarrow> string"
  on_fatal :: "exn \<Rightarrow> exn + bool \<times> string"

text \<open>\<open>retry_attempts D k\<close> is a call with \<open>k\<close> further attempts left after the first.\<close>

fun retry_attempts ::
  "retry_policy \<Rightarrow> nat \<Rightarrow> ('p \<Rightarrow> (exn + bool \<times> string) \<times> 'p) \<Rightarrow> 'p \<Rightarrow> (exn + bool \<times> string) \<times> 'p" where
  "retry_attempts D 0 f p =
     (case f p of
        (Inr v, p') \<Rightarrow> (Inr v, p')
      | (Inl e, p') \<Rightarrow>
          if transient e then (Inr (False, exhausted_message D (str_exn e)), p')
          else (on_fatal D e, p'))"
| "retry_attempts D (Suc k) f p =
     (case f p of
        (Inr v, p') \<Rightarrow> (Inr v, p')
      | (Inl e, p') \<Rightarrow>
          if transient e then retry_attempts D k f p' else (on_fatal D e, p'))"

definition retry_with_backoff ::
  "retry_policy \<Rightarrow> nat \<Rightarrow> ('p \<Rightarrow> (exn + bool \<times> string) \<times> 'p) \<Rightarrow> 'p \<Rightarrow> (exn + bool \<times> string) \<times> 'p" where
  "retry_with_backoff D max_retries f p = retry_attempts D (max_retries - 1) f p"

text \<open>The decorated methods, \<^verbatim>\<open>@retry_with_backoff(max_retries=3)\<close>.\<close>

definition netlify_validate_credentials ::
  "retry_policy \<Rightarrow> error_helpers \<Rightarrow> world \<Rightarrow> remote \<Rightarrow> netlify_platform
     \<Rightarrow> netlify_platform validation" where
  "netlify_validate_credentials D E w R =
     retry_with_backoff D 3 (netlify_validate_credentials_body E w R)"

definition vercel_validate_credentials ::
  "retry_policy \<Rightarrow> error_helpers \<Rightarrow> world \<Rightarrow> remote \<Rightarrow> vercel_platform
     \<Rightarrow> vercel_platform validation" where
  "vercel_validate_credentials D E w R =
     retry_with_backoff D 3 (vercel_validate_credentials_body E w R)"

definition railway_validate_credentials ::
  "retry_policy \<Rightarrow> error_helpers \<Rightarrow> world \<Rightarrow> remote \<Rightarrow> railway_platform
     \<Rightarrow> railway_platform validation" where
  "railway_validate_credentials D E w R =
     retry_with_backoff D 3 (railway_validate_credentials_body E w R)"

definition github_validate_credentials ::
  "retry_policy \<Rightarrow> error_helpers \<Rightarrow> world \<Rightarrow> remote \<Rightarrow> github_platform
     \<Rightarrow> github_platform validation" where
  "github_validate_credentials D E w R =
     retry_with_backoff D 3 (github_validate_credentials_body E w R)"

subsection \<open>\<^verbatim>\<open>NetlifyPlatform.prepare_deployment\<close>\<close>

text \<open>\<open>build_exists\<close> is \<^verbatim>\<open>build_path.exists()\<close>: \<^verbatim>\<open>Path.exists\<close> returns false for a missing
  path and re-raises every other \<^verbatim>\<open>OSError\<close> of \<^verbatim>\<open>stat\<close>, such as \<^verbatim>\<open>PermissionError\<close>;
  \<open>path\<close> is the path as printed. The method has no \<^verbatim>\<open>try\<close> block.\<close>

definition netlify_prepare_deployment ::
  "retry_policy \<Rightarrow> error_helpers \<Rightarrow> world \<Rightarrow> remote \<Rightarrow> (exn + bool) \<Rightarrow> string
     \<Rightarrow> netlify_platform \<Rightarrow> netlify_platform validation" where
  "netlify_prepare_deployment D E w R build_exists path p =
     (case netlify_validate_credentials D E w R p of
        (Inl e, p1) \<Rightarrow> (Inl e, p1)
      | (Inr (valid, msg), p1) \<Rightarrow>
          if \<not> valid then (Inr (False, msg), p1)
          else (case build_exists of
                  Inl e \<Rightarrow> (Inl e, p1)
                | Inr found \<Rightarrow>
                    if \<not> found then (Inr (False, ''Build output directory not found: '' @ path), p1)
                    else if \<not> truthy (site_id p1) then (Inr (False, ''No Netlify site configured''), p1)
                    else (Inr (True, ''Ready for deployment''), p1)))"

subsection \<open>Example worlds\<close>

text \<open>Concrete worlds on which the theorems below are run: one where all three credential
  sources hold a value; an empty one; one with no token anywhere and a CLI tool that is
  found but may not be executed; a remote that accepts every token and creates whatever it
  is asked to; error helpers that join their arguments; and a decorator that raises a fatal
  exception again.\<close>

definition world_all :: world where
  "world_all =
     \<lparr>cli_probe = (\<lambda>b. ToolRan 0 ''Logged in as user@example.org''),
      cli_get_token = (\<lambda>b. Some ''cli-token''),
      files = (\<lambda>f. Content ('' file-token'' @ [CHR 0x0A])),
      getenv = (\<lambda>v. Some ''env-token''),
      cwd_basename = ''proj''\<rparr>"

definition world_none :: world where
  "world_none =
     \<lparr>cli_probe = (\<lambda>b. ToolMissing),
      cli_get_token = (\<lambda>b. None),
      files = (\<lambda>f. Missing),
      getenv = (\<lambda>v. None),
      cwd_basename = ''proj''\<rparr>"

definition remote_ok :: remote where
  "remote_ok =
     \<lparr>validate_token = (\<lambda>b t. (True, ''Authenticated as user@example.org'')),
      auto_create = (\<lambda>b t n. (True, ''Created'', Some ''new-id'')),
      auto_create_complete_setup = (\<lambda>t n. (True, ''Created'', Some (Some ''p1'', Some ''s1'', Some ''e1''))),
      list_projects = (\<lambda>t. (True, 2, ''Projects retrieved successfully'')),
      gh_get_user = (\<lambda>t. Inr ''user''),
      gh_get_repo = (\<lambda>t rn. Inr ()),
      gh_get_collaborator_permission = (\<lambda>t rn login. Inr ''admin'')\<rparr>"

definition errors_plain :: error_helpers where
  "errors_plain =
     \<lparr>handle_auth_error = (\<lambda>b m. b @ '': '' @ m),
      handle_github_api_error = (\<lambda>st m. m),
      handle_git_error = (\<lambda>m. m),
      handle_build_error = (\<lambda>m. m)\<rparr>"

definition world_denied :: world where
  "world_denied = world_none\<lparr>cli_probe := (\<lambda>b. ToolFails (OSError ''[Errno 13] Permission denied''))\<rparr>"

definition policy_reraise :: retry_policy where
  "policy_reraise = \<lparr>exhausted_message = (\<lambda>m. ''Retries exhausted: '' @ m), on_fatal = Inl\<rparr>"

text \<open>Platform objects as the constructors build them in these worlds.\<close>

definition netlify_fresh :: netlify_platform where
  "netlify_fresh =
     \<lparr>token = Some ''cli-token'', auto_creation = Some ''cli-token'', use_cli = True,
      api_integration = Some ''cli-token'', site_id = None, custom_domain = None\<rparr>"

definition netlify_site :: netlify_platform where
  "netlify_site = netlify_fresh\<lparr>site_id := Some ''site''\<rparr>"

definition netlify_api_site :: netlify_platform where
  "netlify_api_site = netlify_site\<lparr>use_cli := False\<rparr>"

definition netlify_old :: netlify_platform where
  "netlify_old =
     \<lparr>token = Some ''old-token'', auto_creation = Some ''old-token'', use_cli = True,
      api_integration = Some ''old-token'', site_id = Some ''site'', custom_domain = None\<rparr>"

definition github_old :: github_platform where
  "github_old =
     \<lparr>token = Some ''old-token'', auto_creation = Some ''old-token'',
      repo_name = Some ''user/repo'', deploy_method = ''branch'', branch = ''gh-pages'',
      github_client = None, repo_obj = None, env_management = False,
      deployment_repo_name = Some ''user/repo'', has_logger = True\<rparr>"

definition github_new :: github_platform where
  "github_new = github_old\<lparr>token := Some ''new-token'', auto_creation := Some ''new-token''\<rparr>"

definition pages_platform :: github_platform where
  "pages_platform = github_old\<lparr>token := Some ''cli-token'', auto_creation := Some ''cli-token''\<rparr>"

definition world_old :: world where
  "world_old = world_none\<lparr>files := (\<lambda>f. Content ''old-token'')\<rparr>"

definition world_new :: world where
  "world_new = world_none\<lparr>files := (\<lambda>f. Content ''new-token'')\<rparr>"

text \<open>A remote after the token has been rotated: only the new token is accepted.\<close>

definition remote_rotated :: remote where
  "remote_rotated =
     remote_ok
       \<lparr>validate_token :=
          (\<lambda>b t. if t = ''new-token'' then (True, ''Authenticated as user@example.org'')
                  else (False, ''Invalid token'')),
        gh_get_user :=
          (\<lambda>t. if t = ''new-token'' then Inr ''user''
                else Inl (GithubException 401 ''Bad credentials''))\<rparr>"

subsection \<open>The authentication commands (\<^verbatim>\<open>commands/auth.py\<close>)\<close>

text \<open>The token file \<^verbatim>\<open>auth_clear_command\<close> removes and \<^verbatim>\<open>_setup_platform_auth\<close> writes:
  \<^verbatim>\<open>Path(f'.deployx_{platform}_token')\<close>.\<close>

definition auth_token_file :: "string \<Rightarrow> string" where
  "auth_token_file platform = ''.deployx_'' @ platform @ ''_token''"

definition auth_platforms :: "string list" where
  "auth_platforms = [''github'', ''vercel'', ''railway'', ''netlify'', ''render'']"

text \<open>\<^verbatim>\<open>auth_clear_command\<close>: \<open>unlink_fails\<close> says whether removing the file raises. The result
  is the command's return value and the working directory after it.\<close>

definition auth_clear_command ::
  "string \<Rightarrow> bool \<Rightarrow> (string \<Rightarrow> file_state) \<Rightarrow> bool \<times> (string \<Rightarrow> file_state)" where
  "auth_clear_command platform unlink_fails fs =
     (let pl = lower platform in
      if pl \<notin> set auth_platforms then (False, fs)
      else if fs (auth_token_file pl) \<noteq> Missing then
        (if unlink_fails then (False, fs) else (True, fs(auth_token_file pl := Missing)))
      else (True, fs))"

text \<open>\<^verbatim>\<open>_setup_platform_auth\<close> from the point where the user has pasted \<open>pasted\<close>:
  \<open>write_fails\<close> says whether writing the file raises, \<open>test\<close> is \<^verbatim>\<open>_test_platform_token\<close>
  run on the working directory that holds the new file.\<close>

definition setup_platform_auth ::
  "string \<Rightarrow> string \<Rightarrow> bool \<Rightarrow> (string \<Rightarrow> string \<Rightarrow> (string \<Rightarrow> file_state) \<Rightarrow> bool)
     \<Rightarrow> (string \<Rightarrow> file_state) \<Rightarrow> bool \<times> (string \<Rightarrow> file_state)" where
  "setup_platform_auth platform pasted write_fails test fs =
     (let tok = strip pasted in
      if tok = [] then (False, fs)
      else if write_fails then (False, fs)
      else (let fs1 = fs(auth_token_file platform := Content tok) in
            if test platform tok fs1 then (True, fs1)
            else (False, fs1(auth_token_file platform := Missing))))"

text \<open>\<^verbatim>\<open>_test_platform_token\<close> for \<^verbatim>\<open>"github"\<close>: a \<^verbatim>\<open>GitHubPlatform\<close> is built from the
  configuration \<^verbatim>\<open>{'github': {}}\<close> and asked to validate its credentials; any exception
  counts as an invalid token. The token pasted is not passed on.\<close>

definition test_github_token ::
  "retry_policy \<Rightarrow> error_helpers \<Rightarrow> world \<Rightarrow> remote \<Rightarrow> bool \<Rightarrow> string \<Rightarrow> string
     \<Rightarrow> (string \<Rightarrow> file_state) \<Rightarrow> bool" where
  "test_github_token D E w R lg platform tok fs =
     (let w1 = w\<lparr>files := fs\<rparr> in
      case github_init None ''branch'' ''gh-pages'' lg w1 of
        Inl e \<Rightarrow> False
      | Inr p \<Rightarrow>
          (case fst (github_validate_credentials D E w1 R p) of
             Inr (valid, msg) \<Rightarrow> valid
           | Inl e \<Rightarrow> False))"

subsection \<open>Deployment status: \<^verbatim>\<open>get_deployment_status\<close> and \<^verbatim>\<open>get_status\<close>\<close>

text \<open>The constructor \<^verbatim>\<open>DeploymentStatus(status=..., message=..., url=...)\<close>; \<^verbatim>\<open>last_updated\<close>
  keeps its default. \<open>mk_status\<close> is the constructor applied to a string literal.\<close>

definition deployment_status :: "string option \<Rightarrow> string \<Rightarrow> string option \<Rightarrow> DeploymentStatus" where
  "deployment_status s m u = \<lparr>status = s, status_url = u, last_updated = None, status_message = m\<rparr>"

definition mk_status :: "string \<Rightarrow> string \<Rightarrow> string option \<Rightarrow> DeploymentStatus" where
  "mk_status s m u = deployment_status (Some s) m u"

text \<open>\<^verbatim>\<open>str(v)\<close> and the rendering in an f-string of a value that is a string or \<^verbatim>\<open>None\<close>.\<close>

definition str_opt :: "string option \<Rightarrow> string" where
  "str_opt v = (case v of None \<Rightarrow> ''None'' | Some s \<Rightarrow> s)"

text \<open>\<^verbatim>\<open>NetlifyAPIIntegration.get_deployment_status\<close>. The HTTP exchange either raises or gives
  a status code and the list of deploys of the JSON body. Of a deploy the method reads the
  member \<^verbatim>\<open>state\<close>, which is absent, a JSON \<^verbatim>\<open>null\<close> or a string, and the member \<^verbatim>\<open>url\<close>.
  \<^verbatim>\<open>latest_deploy.get('state', 'unknown')\<close> gives \<open>unknown\<close> for an absent member only; a
  \<^verbatim>\<open>null\<close> is \<^verbatim>\<open>None\<close>.\<close>

datatype json_state = StateAbsent | StateNull | StateText string

type_synonym deploys_response = "exn + nat \<times> (json_state \<times> string option) list"

fun raw_state :: "json_state \<Rightarrow> string option" where
  "raw_state StateAbsent = Some ''unknown''"
| "raw_state StateNull = None"
| "raw_state (StateText s) = Some s"

definition netlify_api_get_deployment_status ::
  "deploys_response \<Rightarrow> bool \<times> string option \<times> string option" where
  "netlify_api_get_deployment_status response =
     (case response of
        Inl e \<Rightarrow> (False, Some ''error'', None)
      | Inr (status_code, deploys) \<Rightarrow>
          if status_code = 200 then
            (case deploys of
               [] \<Rightarrow> (True, Some ''no_deploys'', None)
             | (state, u) # rest \<Rightarrow> (True, raw_state state, u))
          else (False, Some ''error'', None))"

text \<open>The lookup table of \<^verbatim>\<open>NetlifyPlatform.get_deployment_status\<close>, and
  \<^verbatim>\<open>status_map.get(status, status)\<close>: the table's value for a key of the table, the
  argument itself otherwise (\<^verbatim>\<open>None\<close> is not a key).\<close>

definition status_map :: "(string \<times> string) list" where
  "status_map =
     [(''ready'', ''deployed''), (''building'', ''building''), (''error'', ''error''),
      (''no_deploys'', ''not_deployed'')]"

definition mapped_status :: "string option \<Rightarrow> string option" where
  "mapped_status raw =
     (case raw of
        None \<Rightarrow> None
      | Some r \<Rightarrow> (case map_of status_map r of None \<Rightarrow> Some r | Some s \<Rightarrow> Some s))"

text \<open>\<^verbatim>\<open>NetlifyPlatform.get_deployment_status\<close>; \<open>http\<close> is the exchange for a token and a
  site. The API method catches every exception, so the outer handler is never entered.\<close>

definition netlify_get_deployment_status ::
  "(string \<Rightarrow> string \<Rightarrow> deploys_response) \<Rightarrow> netlify_platform \<Rightarrow> DeploymentStatus" where
  "netlify_get_deployment_status http p =
     (case (when_truthy (site_id p), api_integration p) of
        (Some site, Some api_token) \<Rightarrow>
          (case netlify_api_get_deployment_status (http api_token site) of
             (ok, raw, u) \<Rightarrow>
               if ok
               then deployment_status (mapped_status raw) (''Netlify deployment: '' @ str_opt raw) u
               else mk_status ''error'' ''Failed to get deployment status'' None)
      | _ \<Rightarrow> mk_status ''not_deployed'' ''No Netlify site configured'' None)"

definition netlify_get_status ::
  "(string \<Rightarrow> string \<Rightarrow> deploys_response) \<Rightarrow> netlify_platform \<Rightarrow> string option \<Rightarrow> DeploymentStatus" where
  "netlify_get_status http p deployment = netlify_get_deployment_status http p"

text \<open>\<^verbatim>\<open>VercelPlatform.get_deployment_status\<close>.\<close>

definition vercel_get_deployment_status :: "vercel_platform \<Rightarrow> DeploymentStatus" where
  "vercel_get_deployment_status p =
     (case when_truthy (project_name p) of
        Some name \<Rightarrow>
          mk_status ''deployed'' (''Vercel project: '' @ name)
            (Some (''https://'' @ name @ ''.vercel.app''))
      | None \<Rightarrow> mk_status ''not_deployed'' ''No Vercel project configured'' None)"

definition vercel_get_status :: "vercel_platform \<Rightarrow> string option \<Rightarrow> DeploymentStatus" where
  "vercel_get_status p deployment = vercel_get_deployment_status p"

text \<open>\<^verbatim>\<open>RailwayPlatform.get_deployment_status\<close>; \<open>info\<close> is
  \<^verbatim>\<open>RailwayAPIIntegration.get_project_info\<close>, which catches every exception and returns the
  success flag, the project data (here its optional \<^verbatim>\<open>name\<close>) and a message.\<close>

definition railway_get_deployment_status ::
  "(string \<Rightarrow> string \<Rightarrow> bool \<times> string option option \<times> string) \<Rightarrow> railway_platform \<Rightarrow> DeploymentStatus" where
  "railway_get_deployment_status info p =
     (case (when_truthy (project_id p), api_integration p) of
        (Some pid, Some api_token) \<Rightarrow>
          (case info api_token pid of
             (ok, Some name, msg) \<Rightarrow>
               if ok
               then mk_status ''deployed'' (''Railway project: '' @ str_opt name)
                      (Some (''https://railway.app/project/'' @ pid))
               else mk_status ''error'' (''Failed to get project info: '' @ msg) None
           | (ok, None, msg) \<Rightarrow> mk_status ''error'' (''Failed to get project info: '' @ msg) None)
      | _ \<Rightarrow> mk_status ''not_deployed'' ''No Railway project configured'' None)"

definition railway_get_status ::
  "(string \<Rightarrow> string \<Rightarrow> bool \<times> string option option \<times> string) \<Rightarrow> railway_platform
     \<Rightarrow> string option \<Rightarrow> DeploymentStatus" where
  "railway_get_status info p deployment = railway_get_deployment_status info p"

text \<open>\<^verbatim>\<open>GitHubPlatform.get_deployment_status\<close>; \<open>pages\<close> is \<^verbatim>\<open>repo_obj.get_pages()\<close>, which
  raises or gives the status and the URL of the Pages site. The method validates the
  credentials first when no repository object is there yet, and so may change the platform
  object. Calling \<^verbatim>\<open>get_pages\<close> on \<^verbatim>\<open>None\<close> raises \<^verbatim>\<open>AttributeError\<close>.\<close>

definition github_pages_status ::
  "(exn + string \<times> string option) \<Rightarrow> github_platform \<Rightarrow> DeploymentStatus" where
  "github_pages_status pages p =
     (case repo_obj p of
        None \<Rightarrow>
          mk_status ''error''
            (''Failed to get deployment status: '' @ str_exn (no_attribute_of_None ''get_pages'')) None
      | Some r \<Rightarrow>
          (case pages of
             Inr (pages_status, html_url) \<Rightarrow>
               mk_status (if pages_status = ''built'' then ''deployed'' else ''building'')
                 (''GitHub Pages status: '' @ pages_status) html_url
           | Inl (GithubException st m) \<Rightarrow>
               if st = 404 then mk_status ''not_deployed'' ''GitHub Pages not enabled'' None
               else mk_status ''error'' (''Failed to get deployment status: '' @ m) None
           | Inl e \<Rightarrow> mk_status ''error'' (''Failed to get deployment status: '' @ str_exn e) None))"

definition github_get_deployment_status ::
  "retry_policy \<Rightarrow> error_helpers \<Rightarrow> world \<Rightarrow> remote \<Rightarrow> (exn + string \<times> string option)
     \<Rightarrow> github_platform \<Rightarrow> DeploymentStatus \<times> github_platform" where
  "github_get_deployment_status D E w R pages p =
     (if repo_obj p = None then
        (case github_validate_credentials D E w R p of
           (Inl e, p1) \<Rightarrow>
             (mk_status ''error'' (''Failed to get deployment status: '' @ str_exn e) None, p1)
         | (Inr (valid, msg), p1) \<Rightarrow>
             if \<not> valid then (mk_status ''error'' ''Invalid credentials'' None, p1)
             else (github_pages_status pages p1, p1))
      else (github_pages_status pages p, p))"

definition github_get_status ::
  "retry_policy \<Rightarrow> error_helpers \<Rightarrow> world \<Rightarrow> remote \<Rightarrow> (exn + string \<times> string option)
     \<Rightarrow> github_platform \<Rightarrow> string option \<Rightarrow> DeploymentStatus \<times> github_platform" where
  "github_get_status D E w R pages p deployment = github_get_deployment_status D E w R pages p"

text \<open>The five canonical values of the specification, and the four values the platforms
  write as literals.\<close>

definition canonical_statuses :: "string set" where
  "canonical_statuses = {''unknown'', ''not_deployed'', ''building'', ''ready'', ''error''}"

definition platform_statuses :: "string option set" where
  "platform_statuses = {Some ''deployed'', Some ''building'', Some ''error'', Some ''not_deployed''}"


subsection \<open>Repository name suggestion (\<^verbatim>\<open>GitHubAutoCreation._generate_suggested_name\<close>)\<close>

text \<open>\<^verbatim>\<open>s.replace(a, b)\<close> for single characters.\<close>

definition replace_char :: "char \<Rightarrow> char \<Rightarrow> string \<Rightarrow> string" where
  "replace_char a b s = map (\<lambda>c. if c = a then b else c) s"

definition base_name :: "string \<Rightarrow> string" where
  "base_name project = replace_char CHR ''_'' CHR ''-'' (replace_char CHR '' '' CHR ''-'' (lower project))"

text \<open>The remote side is \<open>get_repo k name\<close>: whether the \<open>k\<close>-th lookup of the run (counted
  from 0), asking for \<open>name\<close>, returns a repository; any exception of the lookup is caught
  by the bare \<^verbatim>\<open>except:\<close> and counts as ``no such repository''. The loop
  \<^verbatim>\<open>while True\<close> has no other exit than a lookup that fails, so it is a partial function:
  \<open>None\<close> is a run that does not return. The first lookup is for the base name, and the
  lookup for the suffix \<open>counter\<close> is the \<open>counter\<close>-th one.\<close>

partial_function (option) probe_suffix ::
  "(nat \<Rightarrow> string \<Rightarrow> bool) \<Rightarrow> string \<Rightarrow> string \<Rightarrow> nat \<Rightarrow> string option" where
  "probe_suffix get_repo username base counter =
     (let new_name = base @ ''-'' @ str_nat counter in
      if get_repo counter (username @ ''/'' @ new_name)
      then probe_suffix get_repo username base (counter + 1)
      else Some new_name)"

definition generate_suggested_name ::
  "(nat \<Rightarrow> string \<Rightarrow> bool) \<Rightarrow> string \<Rightarrow> string \<Rightarrow> string option" where
  "generate_suggested_name get_repo project username =
     (if get_repo 0 (username @ ''/'' @ base_name project)
      then probe_suffix get_repo username (base_name project) 1
      else Some (base_name project))"

subsection \<open>Branch deployment (\<^verbatim>\<open>GitHubDeployment.deploy_to_branch\<close>)\<close>

text \<open>An entry of a directory as \<^verbatim>\<open>iterdir()\<close> yields it: its name, whether \<^verbatim>\<open>is_dir()\<close>
  holds, and its content (left abstract).\<close>

record 'a entry =
  entry_name :: string
  entry_is_dir :: bool
  content :: 'a

text \<open>What git and the file system answer during one deployment.
  \<^item> \<open>output_exists\<close>: \<^verbatim>\<open>output_path.exists()\<close>; \<open>output_path\<close>: the path as printed.
  \<^item> \<open>repo_open\<close>, \<open>repo_init\<close>: the exception \<^verbatim>\<open>Repo(project_path)\<close> and
    \<^verbatim>\<open>Repo.init(project_path)\<close> raise, if any.
  \<^item> \<open>ref_names\<close>: the names of \<^verbatim>\<open>repo.refs\<close>; \<open>checkout\<close>: the exception
    \<^verbatim>\<open>repo.git.checkout\<close> raises for the given arguments, if any.
  \<^item> \<open>root_entries\<close>: \<^verbatim>\<open>project_path.iterdir()\<close> after the checkout.
  \<^item> \<open>rmtree_leaves\<close>: \<^verbatim>\<open>shutil.rmtree(item, ignore_errors=True)\<close> never raises; the result
    is \<open>None\<close> when the directory is gone and the content that is left otherwise.
  \<^item> \<open>unlink_raises\<close>, \<open>copy_raises\<close>: the exception \<^verbatim>\<open>item.unlink\<close>, respectively
    \<^verbatim>\<open>copytree\<close> or \<^verbatim>\<open>copy2\<close>, raise for an entry, if any.
  \<^item> \<open>output_entries\<close>: \<^verbatim>\<open>output_path.iterdir()\<close>, given the root entries left by the
    clearing step.
  \<^item> \<open>git_add\<close>, \<open>git_commit\<close>, \<open>push\<close>: the exception raised by \<^verbatim>\<open>repo.git.add('.')\<close>,
    \<^verbatim>\<open>repo.git.commit\<close>, and \<^verbatim>\<open>repo.remote('origin')\<close> followed by the forced push.\<close>

record 'a git_env =
  output_exists :: bool
  output_path :: string
  repo_open :: "exn option"
  repo_init :: "exn option"
  ref_names :: "string list"
  checkout :: "string list \<Rightarrow> exn option"
  root_entries :: "'a entry list"
  rmtree_leaves :: "'a entry \<Rightarrow> 'a option"
  unlink_raises :: "'a entry \<Rightarrow> exn option"
  output_entries :: "'a entry list \<Rightarrow> exn + 'a entry list"
  copy_raises :: "'a entry \<Rightarrow> exn option"
  git_add :: "exn option"
  git_commit :: "exn option"
  push :: "exn option"

text \<open>The git operations that completed, in order.\<close>

datatype git_op = Init | Checkout "string list" | Add | Commit | Push

text \<open>\<^verbatim>\<open>Repo(project_path)\<close>, with \<^verbatim>\<open>Repo.init\<close> under the bare \<^verbatim>\<open>except:\<close>.\<close>

definition open_repo :: "'a git_env \<Rightarrow> exn + git_op list" where
  "open_repo env =
     (case repo_open env of
        None \<Rightarrow> Inr []
      | Some e \<Rightarrow> (case repo_init env of None \<Rightarrow> Inr [Init] | Some e' \<Rightarrow> Inl e'))"

text \<open>The checkout of the deployment branch: the local branch when a ref of that name
  exists, a new branch otherwise; on \<^verbatim>\<open>GitCommandError\<close> the remote branch, and on
  \<^verbatim>\<open>GitCommandError\<close> again an orphan branch.\<close>

definition try_checkout :: "'a git_env \<Rightarrow> string list \<Rightarrow> exn + git_op list" where
  "try_checkout env args = (case checkout env args of None \<Rightarrow> Inr [Checkout args] | Some e \<Rightarrow> Inl e)"

definition checkout_branch :: "'a git_env \<Rightarrow> string \<Rightarrow> exn + git_op list" where
  "checkout_branch env br =
     (case try_checkout env
             (if br \<in> set (map (\<lambda>ref. last (split CHR ''/'' ref)) (ref_names env))
              then [br] else [''-b'', br]) of
        Inr ops \<Rightarrow> Inr ops
      | Inl (GitCommandError m) \<Rightarrow>
          (case try_checkout env [''-b'', br, ''origin/'' @ br] of
             Inr ops \<Rightarrow> Inr ops
           | Inl (GitCommandError m') \<Rightarrow> try_checkout env [''--orphan'', br]
           | Inl e \<Rightarrow> Inl e)
      | Inl e \<Rightarrow> Inl e)"

text \<open>\<^verbatim>\<open>protected_items = {'.git', output_dir, '.gitignore', 'CNAME'}\<close>.\<close>

definition protected_items :: "string \<Rightarrow> string set" where
  "protected_items output_dir = {''.git'', output_dir, ''.gitignore'', ''CNAME''}"

text \<open>The clearing loop over \<^verbatim>\<open>project_path.iterdir()\<close>. The result is the exception that
  ends the loop, if any, and the entries that are left. An \<^verbatim>\<open>OSError\<close> of \<^verbatim>\<open>unlink\<close> is
  logged and the loop goes on; what \<^verbatim>\<open>rmtree\<close> cannot remove it leaves silently.\<close>

fun clear_items :: "'a git_env \<Rightarrow> string set \<Rightarrow> 'a entry list \<Rightarrow> exn option \<times> 'a entry list" where
  "clear_items env protected [] = (None, [])"
| "clear_items env protected (item # rest) =
     (if entry_name item \<notin> protected then
        (if entry_is_dir item then
           (case rmtree_leaves env item of
              None \<Rightarrow> clear_items env protected rest
            | Some c \<Rightarrow>
                (case clear_items env protected rest of
                   (raised, kept) \<Rightarrow> (raised, item\<lparr>content := c\<rparr> # kept)))
         else
           (case unlink_raises env item of
              None \<Rightarrow> clear_items env protected rest
            | Some e \<Rightarrow>
                if is_OSError e
                then (case clear_items env protected rest of
                        (raised, kept) \<Rightarrow> (raised, item # kept))
                else (Some e, item # rest)))
      else (case clear_items env protected rest of
              (raised, kept) \<Rightarrow> (raised, item # kept)))"

text \<open>The copy loop over \<^verbatim>\<open>output_path.iterdir()\<close>: a directory replaces the destination of
  its name (which is removed first when it exists), a file is copied over it; an
  \<^verbatim>\<open>OSError\<close> is logged and the loop goes on.\<close>

definition put_entry :: "'a entry \<Rightarrow> 'a entry list \<Rightarrow> 'a entry list" where
  "put_entry item root = filter (\<lambda>e. entry_name e \<noteq> entry_name item) root @ [item]"

definition remove_dest :: "'a git_env \<Rightarrow> string \<Rightarrow> 'a entry list \<Rightarrow> 'a entry list" where
  "remove_dest env n root =
     concat (map (\<lambda>e. if entry_name e = n
                        then (case rmtree_leaves env e of None \<Rightarrow> [] | Some c \<Rightarrow> [e\<lparr>content := c\<rparr>])
                        else [e]) root)"

fun copy_items :: "'a git_env \<Rightarrow> 'a entry list \<Rightarrow> 'a entry list \<Rightarrow> exn option \<times> 'a entry list" where
  "copy_items env [] root = (None, root)"
| "copy_items env (item # rest) root =
     (let root1 = (if entry_is_dir item then remove_dest env (entry_name item) root else root) in
      case copy_raises env item of
        None \<Rightarrow> copy_items env rest (put_entry item root1)
      | Some e \<Rightarrow> if is_OSError e then copy_items env rest root1 else (Some e, root1))"

text \<open>Everything \<^verbatim>\<open>deploy_to_branch\<close> does between the check of the output directory and
  \<^verbatim>\<open>git add\<close>: the exception that ends it, or the git operations done and the entries of
  the working tree.\<close>

definition prepare_worktree ::
  "'a git_env \<Rightarrow> string \<Rightarrow> string \<Rightarrow> exn + git_op list \<times> 'a entry list" where
  "prepare_worktree env br output_dir =
     (case open_repo env of
        Inl e \<Rightarrow> Inl e
      | Inr ops1 \<Rightarrow>
          (case checkout_branch env br of
             Inl e \<Rightarrow> Inl e
           | Inr ops2 \<Rightarrow>
               (case clear_items env (protected_items output_dir) (root_entries env) of
                  (Some e, cleared) \<Rightarrow> Inl e
                | (None, cleared) \<Rightarrow>
                    (case output_entries env cleared of
                       Inl e \<Rightarrow> Inl e
                     | Inr built \<Rightarrow>
                         (case copy_items env built cleared of
                            (Some e, copied) \<Rightarrow> Inl e
                          | (None, copied) \<Rightarrow> Inr (ops1 @ ops2, copied))))))"

definition mk_result :: "bool \<Rightarrow> string \<Rightarrow> string option \<Rightarrow> string option \<Rightarrow> DeploymentResult" where
  "mk_result ok m u d = \<lparr>success = ok, url = u, message = m, deployment_id = d\<rparr>"

text \<open>\<^verbatim>\<open>deploy_to_branch\<close>: the result and the git operations that completed. \<open>repo\<close> and
  \<open>br\<close> are \<^verbatim>\<open>self.repo_name\<close> and \<^verbatim>\<open>self.branch\<close>. The outer handler turns every
  exception into a failed result.\<close>

definition deploy_failed :: "error_helpers \<Rightarrow> exn \<Rightarrow> DeploymentResult" where
  "deploy_failed E e = mk_result False (handle_git_error E (''Deployment failed: '' @ str_exn e)) None None"

definition deploy_to_branch ::
  "error_helpers \<Rightarrow> string option \<Rightarrow> string \<Rightarrow> 'a git_env \<Rightarrow> string
     \<Rightarrow> DeploymentResult \<times> git_op list" where
  "deploy_to_branch E repo br env output_dir =
     (if \<not> output_exists env then
        (mk_result False
           (handle_build_error E (''Build output directory not found: '' @ output_path env))
           None None, [])
      else
        (case prepare_worktree env br output_dir of
           Inl e \<Rightarrow> (deploy_failed E e, [])
         | Inr (ops, tree) \<Rightarrow>
             (case git_add env of
                Some e \<Rightarrow> (deploy_failed E e, ops)
              | None \<Rightarrow>
                  (case git_commit env of
                     Some (GitCommandError m) \<Rightarrow>
                       if contains m ''nothing to commit''
                       then (mk_result True ''No changes to deploy''
                               (Some (generate_pages_url repo)) None, ops @ [Add])
                       else (deploy_failed E (GitCommandError m), ops @ [Add])
                   | Some e \<Rightarrow> (deploy_failed E e, ops @ [Add])
                   | None \<Rightarrow>
                       (case push env of
                          Some e \<Rightarrow>
                            (mk_result False
                               (handle_git_error E (''Failed to push to remote: '' @ str_exn e))
                               None None, ops @ [Add, Commit])
                        | None \<Rightarrow>
                            (mk_result True
                               (''Successfully deployed to GitHub Pages (branch: '' @ br @ '')'')
                               (Some (generate_pages_url repo)) None,
                             ops @ [Add, Commit, Push]))))))"

text \<open>\<^verbatim>\<open>GitHubPlatform.execute_deployment\<close> for the branch method; the docs-folder method is
  the parameter \<open>docs\<close>.\<close>

definition github_execute_deployment ::
  "error_helpers \<Rightarrow> github_platform \<Rightarrow> 'a git_env \<Rightarrow> string
     \<Rightarrow> DeploymentResult \<times> git_op list \<Rightarrow> DeploymentResult \<times> git_op list" where
  "github_execute_deployment E p env output_dir docs =
     (if deploy_method p = ''branch''
      then deploy_to_branch E (deployment_repo_name p) (branch p) env output_dir
      else if deploy_method p = ''docs'' then docs
      else (mk_result False (''Unknown deployment method: '' @ deploy_method p) None None, []))"

text \<open>An entry outside the allow-list stays where its removal fails: \<^verbatim>\<open>rmtree\<close> leaves
  something of the directory, or \<^verbatim>\<open>unlink\<close> raises.\<close>

definition left_behind :: "'a git_env \<Rightarrow> 'a entry \<Rightarrow> bool" where
  "left_behind env item =
     (if entry_is_dir item then rmtree_leaves env item \<noteq> None else unlink_raises env item \<noteq> None)"

text \<open>Example trees and environments: a project with sources and a build directory; an
  environment in which every operation succeeds; one in which the commit finds nothing to
  commit; one in which the file system refuses to remove anything.\<close>

definition project_tree :: "string entry list" where
  "project_tree =
     [\<lparr>entry_name = ''.git'', entry_is_dir = True, content = ''objects''\<rparr>,
      \<lparr>entry_name = ''src'', entry_is_dir = True, content = ''sources''\<rparr>,
      \<lparr>entry_name = ''README.md'', entry_is_dir = False, content = ''readme''\<rparr>,
      \<lparr>entry_name = ''build'', entry_is_dir = True, content = ''site''\<rparr>,
      \<lparr>entry_name = ''CNAME'', entry_is_dir = False, content = ''example.org''\<rparr>]"

definition build_tree :: "string entry list" where
  "build_tree = [\<lparr>entry_name = ''index.html'', entry_is_dir = False, content = ''<html/>''\<rparr>]"

definition env_clean :: "string git_env" where
  "env_clean =
     \<lparr>output_exists = True, output_path = ''proj/build'', repo_open = None, repo_init = None,
      ref_names = [''main'', ''origin/gh-pages''], checkout = (\<lambda>args. None),
      root_entries = project_tree, rmtree_leaves = (\<lambda>item. None),
      unlink_raises = (\<lambda>item. None), output_entries = (\<lambda>root. Inr build_tree),
      copy_raises = (\<lambda>item. None), git_add = None, git_commit = None, push = None\<rparr>"

definition env_unchanged :: "string git_env" where
  "env_unchanged =
     env_clean\<lparr>git_commit :=
       Some (GitCommandError ''On branch gh-pages nothing to commit, working tree clean'')\<rparr>"

definition env_locked :: "string git_env" where
  "env_locked =
     env_clean\<lparr>rmtree_leaves := (\<lambda>item. Some (content item)),
               unlink_raises := (\<lambda>item. Some (OSError ''Permission denied''))\<rparr>"


subsection \<open>API upload (\<^verbatim>\<open>NetlifyAPIIntegration.deploy_site\<close>) and \<^verbatim>\<open>NetlifyPlatform.execute_deployment\<close>\<close>

text \<open>What the file system, the Netlify API and the Netlify CLI answer during one
  deployment.
  \<^item> \<open>build_exists\<close>: \<^verbatim>\<open>build_path.exists()\<close>; \<open>build_path\<close>: the path as printed.
  \<^item> \<open>mktemp\<close>: \<^verbatim>\<open>tempfile.NamedTemporaryFile(suffix='.zip', delete=False)\<close> raises, or
    creates a file and gives its name.
  \<^item> \<open>zip_write\<close>: the exception raised while the build tree is written into the archive,
    if any.
  \<^item> \<open>open_zip\<close>: the exception \<^verbatim>\<open>open(zip_path, 'rb')\<close> raises, if any.
  \<^item> \<open>post\<close>: the upload raises, or gives a status code and the result of
    \<^verbatim>\<open>response.json()\<close>, which raises or is a dictionary.
  \<^item> \<open>unlink\<close>: the exception \<^verbatim>\<open>os.unlink(zip_path)\<close> raises, if any.
  \<^item> \<open>cli_link\<close>, \<open>cli_deploy\<close>: the results of \<^verbatim>\<open>link_site\<close> and \<^verbatim>\<open>deploy_site\<close> of
    \<^verbatim>\<open>NetlifyCLIIntegration\<close>, which catch every exception.\<close>

record netlify_env =
  build_exists :: bool
  build_path :: string
  mktemp :: "exn + string"
  zip_write :: "exn option"
  open_zip :: "exn option"
  post :: "exn + nat \<times> (exn + (string \<Rightarrow> string option))"
  unlink :: "exn option"
  cli_link :: "bool \<times> string"
  cli_deploy :: "bool \<times> string \<times> string option"

text \<open>\<^verbatim>\<open>_create_deployment_zip\<close>: the second component is the set of temporary files on disk.
  The temporary file is created and closed first (\<^verbatim>\<open>delete=False\<close>), the archive is
  written into it afterwards.\<close>

definition create_deployment_zip :: "netlify_env \<Rightarrow> string set \<Rightarrow> (exn + string) \<times> string set" where
  "create_deployment_zip env tmp =
     (case mktemp env of
        Inl e \<Rightarrow> (Inl e, tmp)
      | Inr zip_path \<Rightarrow>
          (case zip_write env of
             Some e \<Rightarrow> (Inl e, insert zip_path tmp)
           | None \<Rightarrow> (Inr zip_path, insert zip_path tmp)))"

text \<open>The body of the inner \<^verbatim>\<open>try\<close> of \<^verbatim>\<open>deploy_site\<close>.\<close>

definition upload_zip :: "netlify_env \<Rightarrow> exn + bool \<times> string \<times> string option" where
  "upload_zip env =
     (case open_zip env of
        Some e \<Rightarrow> Inl e
      | None \<Rightarrow>
          (case post env of
             Inl e \<Rightarrow> Inl e
           | Inr (status_code, json) \<Rightarrow>
               (case json of
                  Inl e \<Rightarrow> Inl e
                | Inr data \<Rightarrow>
                    if status_code = 200 then Inr (True, ''Deployment successful'', data ''url'')
                    else Inr (False,
                              (case data ''message'' of None \<Rightarrow> ''Deployment failed'' | Some m \<Rightarrow> m),
                              None))))"

text \<open>\<^verbatim>\<open>deploy_site\<close>: the \<^verbatim>\<open>finally\<close> clause removes the archive after the upload, whatever
  its outcome; an exception of the removal itself replaces that outcome. The call of
  \<^verbatim>\<open>_create_deployment_zip\<close> is before the inner \<^verbatim>\<open>try\<close>.\<close>

definition deploy_error :: "exn \<Rightarrow> bool \<times> string \<times> string option" where
  "deploy_error e = (False, ''Deployment error: '' @ str_exn e, None)"

definition deploy_site :: "netlify_env \<Rightarrow> string set \<Rightarrow> (bool \<times> string \<times> string option) \<times> string set" where
  "deploy_site env tmp =
     (if \<not> build_exists env
      then ((False, ''Build directory not found: '' @ build_path env, None), tmp)
      else
        (case create_deployment_zip env tmp of
           (Inl e, tmp1) \<Rightarrow> (deploy_error e, tmp1)
         | (Inr zip_path, tmp1) \<Rightarrow>
             (case unlink env of
                Some e \<Rightarrow> (deploy_error e, tmp1)
              | None \<Rightarrow>
                  (case upload_zip env of
                     Inl e \<Rightarrow> (deploy_error e, tmp1 - {zip_path})
                   | Inr r \<Rightarrow> (r, tmp1 - {zip_path})))))"

text \<open>\<^verbatim>\<open>NetlifyPlatform.execute_deployment\<close> with \<^verbatim>\<open>_deploy_via_cli\<close> and
  \<^verbatim>\<open>_deploy_via_api\<close>; the whole body is in a \<^verbatim>\<open>try\<close> block that turns every exception
  into a failed result.\<close>

definition netlify_deploy_via_cli :: "netlify_env \<Rightarrow> netlify_platform \<Rightarrow> DeploymentResult" where
  "netlify_deploy_via_cli env p =
     (if truthy (site_id p) \<and> \<not> fst (cli_link env)
      then mk_result False (''Failed to link site: '' @ snd (cli_link env)) None None
      else (case cli_deploy env of (ok, m, u) \<Rightarrow> mk_result ok m u None))"

definition netlify_deploy_without_cli ::
  "netlify_env \<Rightarrow> netlify_platform \<Rightarrow> string set \<Rightarrow> DeploymentResult \<times> string set" where
  "netlify_deploy_without_cli env p tmp =
     (if api_integration p \<noteq> None \<and> truthy (site_id p) then
        (case deploy_site env tmp of ((ok, m, u), tmp1) \<Rightarrow> (mk_result ok m u None, tmp1))
      else (mk_result False ''No deployment method available or site not configured'' None None,
            tmp))"

definition netlify_execute_deployment ::
  "world \<Rightarrow> netlify_env \<Rightarrow> netlify_platform \<Rightarrow> string set \<Rightarrow> DeploymentResult \<times> string set" where
  "netlify_execute_deployment w env p tmp =
     (if use_cli p then
        (case is_cli_available w Netlify of
           Inl e \<Rightarrow> (mk_result False (''Deployment failed: '' @ str_exn e) None None, tmp)
         | Inr available \<Rightarrow>
             if available then (netlify_deploy_via_cli env p, tmp)
             else netlify_deploy_without_cli env p tmp)
      else netlify_deploy_without_cli env p tmp)"

text \<open>Example environments: an upload that succeeds, and a build directory that holds a
  file the process may not read.\<close>

definition env_upload_ok :: netlify_env where
  "env_upload_ok =
     \<lparr>build_exists = True, build_path = ''proj/build'',
      mktemp = Inr ''/tmp/tmpa1b2c3.zip'', zip_write = None, open_zip = None,
      post = Inr (200, Inr (\<lambda>k. if k = ''url'' then Some ''https://site.netlify.app'' else None)),
      unlink = None, cli_link = (True, ''linked''),
      cli_deploy = (True, ''Deployment successful'', None)\<rparr>"

definition env_unreadable :: netlify_env where
  "env_unreadable =
     env_upload_ok\<lparr>zip_write := Some (OSError ''Permission denied: proj/build/secret.key'')\<rparr>"


section \<open>Verified properties\<close>

subsection \<open>Facts about splitting\<close>

lemma split_not_Nil: "split c s \<noteq> []"
  by (induction s) (auto split: list.splits)

lemma length_split: "length (split c s) = Suc (count_list s c)"
  by (induction s) (auto split: list.splits simp: split_not_Nil)

lemma split_no_sep: "c \<notin> set s \<Longrightarrow> split c s = [s]"
  by (induction s) auto

lemma split_at_sep: "c \<notin> set u \<Longrightarrow> split c (u @ c # r) = u # split c r"
  by (induction u) auto

lemma split_two: "c \<notin> set u \<Longrightarrow> c \<notin> set r \<Longrightarrow> split c (u @ c # r) = [u, r]"
  by (simp add: split_at_sep split_no_sep)

lemma split_two_parts:
  "split c s = [u, r] \<Longrightarrow> s = u @ c # r \<and> c \<notin> set u \<and> c \<notin> set r"
proof (induction s arbitrary: u)
  case Nil
  then show ?case by simp
next
  case (Cons x xs)
  show ?case
  proof (cases "x = c")
    case True
    with Cons.prems have u: "u = []" and r: "split c xs = [r]" by auto
    have "length (split c xs) = Suc (count_list xs c)" by (rule length_split)
    with r have "count_list xs c = 0" by simp
    then have "c \<notin> set xs" by (simp add: count_list_0_iff)
    with r have "xs = r" by (simp add: split_no_sep)
    with True u \<open>c \<notin> set xs\<close> show ?thesis by simp
  next
    case False
    with Cons.prems obtain p where p: "split c xs = [p, r]" and u: "u = x # p"
      by (auto split: list.splits)
    from Cons.IH [OF p] False u show ?thesis by simp
  qed
qed

lemma get_url_not_two:
  "length (split CHR ''/'' rn) \<noteq> 2 \<Longrightarrow> get_url (Some rn) = None"
  by (auto simp: get_url_def split: list.splits)

subsection \<open>Claim C10\<close>

text \<open>
  C10. \<^verbatim>\<open>GitHubPlatform.get_url\<close> depends on the configured repository name only.
  It is \<open>None\<close> when the name is unset or empty, and when the name does not consist of
  exactly two \<open>/\<close>-separated parts (the number of \<open>/\<close> in it is not one). For a name
  \<open>owner/name\<close> (neither part containing \<open>/\<close>) it is \<open>https://owner.github.io\<close> when
  \<open>name\<close> is \<open>owner.github.io\<close> and \<open>https://owner.github.io/name\<close> otherwise.
\<close>

theorem get_url_spec:
  "get_url None = None
   \<and> get_url (Some []) = None
   \<and> (count_list rn CHR ''/'' \<noteq> 1 \<longrightarrow> get_url (Some rn) = None)
   \<and> (CHR ''/'' \<notin> set owner \<and> CHR ''/'' \<notin> set name \<longrightarrow>
        get_url (Some (owner @ ''/'' @ name)) =
          Some (if name = owner @ ''.github.io''
                then ''https://'' @ owner @ ''.github.io''
                else ''https://'' @ owner @ ''.github.io/'' @ name))"
proof (intro conjI impI)
  show "get_url None = None" by (simp add: get_url_def)
  show "get_url (Some []) = None" by (simp add: get_url_def)
next
  assume "count_list rn CHR ''/'' \<noteq> 1"
  then have "length (split CHR ''/'' rn) \<noteq> 2" by (simp add: length_split)
  then show "get_url (Some rn) = None" by (rule get_url_not_two)
next
  assume "CHR ''/'' \<notin> set owner \<and> CHR ''/'' \<notin> set name"
  then have "split CHR ''/'' (owner @ CHR ''/'' # name) = [owner, name]"
    by (simp add: split_two)
  then show "get_url (Some (owner @ ''/'' @ name)) =
          Some (if name = owner @ ''.github.io''
                then ''https://'' @ owner @ ''.github.io''
                else ''https://'' @ owner @ ''.github.io/'' @ name)"
    by (simp add: get_url_def)
qed

theorem get_url_spec_witness:
  "get_url (Some ''a/b/c'') = None
   \<and> get_url (Some ''user/repo'') = Some ''https://user.github.io/repo''
   \<and> get_url (Some ''user/user.github.io'') = Some ''https://user.github.io''"
  using get_url_spec [of "''a/b/c''" "''user''" "''repo''"]
        get_url_spec [of "''a/b/c''" "''user''" "''user.github.io''"]
  by simp

subsection \<open>Credential resolution\<close>

lemma first_success_three:
  "first_success [a, b, c] =
     (case a of Some x \<Rightarrow> Some x | None \<Rightarrow> (case b of Some y \<Rightarrow> Some y | None \<Rightarrow> c))"
  by (cases a; cases b; cases c; simp)

text \<open>When the status command of the CLI tool does not raise, \<^verbatim>\<open>_get_token\<close> resolves the
  credential in the order of the specification.\<close>

lemma get_token_resolves_Some:
  "is_cli_available w b = Inr a \<Longrightarrow> resolve_credential b w = Some t \<Longrightarrow>
   get_token b w = Inr (Some t)"
  by (auto simp: resolve_credential_def get_token_def truthy_def first_success_three
      split: option.splits file_state.splits if_splits)

lemma get_token_resolves_None:
  "is_cli_available w b = Inr a \<Longrightarrow> resolve_credential b w = None \<Longrightarrow>
   \<exists>t. get_token b w = Inr t \<and> \<not> truthy t"
  by (auto simp: resolve_credential_def get_token_def truthy_def first_success_three
      split: option.splits file_state.splits if_splits)

lemma get_token_raises: "is_cli_available w b = Inl e \<Longrightarrow> get_token b w = Inl e"
  by (simp add: get_token_def)

lemma when_truthy_None: "\<not> truthy t \<Longrightarrow> when_truthy t = None"
  by (simp add: when_truthy_def)

lemma retry_attempts_returns:
  "f p = (Inr v, p') \<Longrightarrow> retry_attempts D k f p = (Inr v, p')"
  by (cases k) auto

lemma retry_returns:
  "f p = (Inr v, p') \<Longrightarrow> retry_with_backoff D n f p = (Inr v, p')"
  by (simp add: retry_with_backoff_def retry_attempts_returns)

lemma netlify_no_token:
  assumes "get_token Netlify w = Inr t" and "\<not> truthy t"
  shows "netlify_validate_credentials D E w R p =
           (Inr (False, handle_auth_error E ''netlify'' ''No token provided''), p\<lparr>token := t\<rparr>)"
  unfolding netlify_validate_credentials_def
  by (rule retry_returns)
     (simp add: netlify_validate_credentials_body_def assms(1) when_truthy_None [OF assms(2)])

lemma vercel_no_token:
  assumes "get_token Vercel w = Inr t" and "\<not> truthy t"
  shows "vercel_validate_credentials D E w R p =
           (Inr (False, handle_auth_error E ''vercel'' ''No token provided''), p\<lparr>token := t\<rparr>)"
  unfolding vercel_validate_credentials_def
  by (rule retry_returns)
     (simp add: vercel_validate_credentials_body_def assms(1) when_truthy_None [OF assms(2)])

lemma railway_no_token:
  assumes "get_token Railway w = Inr t" and "\<not> truthy t"
  shows "railway_validate_credentials D E w R p =
           (Inr (False, handle_auth_error E ''railway'' ''No token provided''), p\<lparr>token := t\<rparr>)"
  unfolding railway_validate_credentials_def
  by (rule retry_returns)
     (simp add: railway_validate_credentials_body_def assms(1) when_truthy_None [OF assms(2)])

lemma github_no_token:
  assumes "\<not> truthy (token p)"
  shows "github_validate_credentials D E w R p =
           (Inr (False, handle_auth_error E ''github'' ''No token provided''), p)"
  unfolding github_validate_credentials_def
  by (rule retry_returns)
     (simp add: github_validate_credentials_body_def when_truthy_None [OF assms])

lemma token_github_init:
  "github_init repo m br lg w = Inr p \<Longrightarrow> get_token GitHub w = Inr (token p)"
  by (auto simp: github_init_def split: sum.splits)

lemmas run_defs =
  netlify_validate_credentials_def netlify_validate_credentials_body_def
  github_validate_credentials_def github_validate_credentials_body_def
  github_check_access_def github_handlers_def when_truthy_def truthy_def get_token_def
  is_cli_available_def netlify_init_def github_init_def
  world_all_def world_none_def world_denied_def world_old_def world_new_def
  remote_ok_def remote_rotated_def errors_plain_def policy_reraise_def
  netlify_fresh_def netlify_site_def netlify_api_site_def netlify_old_def
  github_old_def github_new_def pages_platform_def
  retry_with_backoff_def strip_def isspace_def no_logger_def Let_def numeral_2_eq_2

lemma resolution_order_examples:
  "get_token Netlify world_all = Inr (Some ''cli-token'')
   \<and> get_token Vercel (world_all\<lparr>cli_probe := (\<lambda>b. ToolMissing)\<rparr>) = Inr (Some ''file-token'')
   \<and> get_token Railway (world_all\<lparr>cli_probe := (\<lambda>b. ToolMissing), files := (\<lambda>f. Missing)\<rparr>)
       = Inr (Some ''env-token'')
   \<and> get_token GitHub world_none = Inr None"
  by (simp add: run_defs)

subsection \<open>Claim C2\<close>

text \<open>
  C2 (the code departs from the claim). Where the status command of the CLI tool runs or
  the tool is missing, \<^verbatim>\<open>_get_token\<close> resolves the credential as the claim says (lemmas
  \<open>get_token_resolves_Some\<close> and \<open>get_token_resolves_None\<close>), and with nothing resolved
  \<^verbatim>\<open>validate_credentials\<close> returns the failure \<open>(False, m)\<close> with \<open>m\<close> the message of
  \<^verbatim>\<open>handle_auth_error(backend, "No token provided")\<close>. But \<^verbatim>\<open>is_cli_available\<close> catches
  \<^verbatim>\<open>FileNotFoundError\<close> only, and \<^verbatim>\<open>_get_token\<close> calls it outside its \<^verbatim>\<open>try\<close> block. At the
  input below no source holds a credential (no token file, no environment variable, and a
  CLI tool that is found but may not be executed): the resolution of the specification
  yields nothing, yet \<^verbatim>\<open>_get_token\<close> does not return an absent token but raises
  \<^verbatim>\<open>PermissionError\<close>, and so do the constructor of the platform and the body of
  \<^verbatim>\<open>validate_credentials\<close>. With the tool missing instead, the same call returns the
  failure value.
\<close>

theorem get_token_raises_on_unusable_cli:
  "resolve_credential Netlify world_denied = None
   \<and> get_token Netlify world_denied = Inl (OSError ''[Errno 13] Permission denied'')
   \<and> netlify_validate_credentials_body errors_plain world_denied remote_ok netlify_site
       = (Inl (OSError ''[Errno 13] Permission denied''), netlify_site)
   \<and> netlify_init None None True world_denied = Inl (OSError ''[Errno 13] Permission denied'')
   \<and> github_init None ''branch'' ''gh-pages'' True world_denied
       = Inl (OSError ''[Errno 13] Permission denied'')
   \<and> resolve_credential Netlify world_none = None
   \<and> get_token Netlify world_none = Inr None
   \<and> netlify_validate_credentials D errors_plain world_none remote_ok netlify_site
       = (Inr (False, ''netlify: No token provided''), netlify_site\<lparr>token := None\<rparr>)"
  by (simp add: run_defs resolve_credential_def)

subsection \<open>What \<^verbatim>\<open>validate_credentials\<close> does to the token\<close>

lemma retry_attempts_state:
  assumes "\<And>p. Q (snd (f p))"
  shows "Q (snd (retry_attempts D k f p))"
proof (induction k arbitrary: p)
  case 0
  show ?case using assms [of p] by (auto split: prod.splits sum.splits)
next
  case (Suc k)
  show ?case using Suc.IH assms [of p] by (auto split: prod.splits sum.splits)
qed

lemma retry_attempts_invariant:
  assumes "\<And>p. Q p \<Longrightarrow> Q (snd (f p))" and "Q p"
  shows "Q (snd (retry_attempts D k f p))"
  using assms(2)
proof (induction k arbitrary: p)
  case 0
  then show ?case using assms(1) [of p] by (auto split: prod.splits sum.splits)
next
  case (Suc k)
  have "Q (snd (f p))" using Suc.prems by (rule assms(1))
  then show ?case using Suc.IH [of "snd (f p)"] by (auto split: prod.splits sum.splits)
qed

lemma netlify_body_token:
  "get_token Netlify w = Inr t \<Longrightarrow>
   token (snd (netlify_validate_credentials_body E w R p)) = t"
  by (auto simp: netlify_validate_credentials_body_def Let_def
      split: option.splits prod.splits)

lemma netlify_token_refreshed:
  "get_token Netlify w = Inr t \<Longrightarrow> token (snd (netlify_validate_credentials D E w R p)) = t"
  unfolding netlify_validate_credentials_def retry_with_backoff_def
  by (rule retry_attempts_state) (rule netlify_body_token)

lemma github_check_access_token:
  "token (snd (github_check_access E R t rn p)) = token p"
  by (auto simp: github_check_access_def Let_def split: sum.splits)

lemma github_body_token:
  "token (snd (github_validate_credentials_body E w R p)) = token p"
  by (auto simp: github_validate_credentials_body_def Let_def github_check_access_token
      split: option.splits prod.splits sum.splits)

lemma github_token_kept:
  "token (snd (github_validate_credentials D E w R p)) = token p"
  unfolding github_validate_credentials_def retry_with_backoff_def
  by (rule retry_attempts_invariant [where Q = "\<lambda>q. token q = token p"])
     (simp_all add: github_body_token)

subsection \<open>Claim C7\<close>

text \<open>
  C7 (the code departs from the claim). \<^verbatim>\<open>GitHubPlatform.validate_credentials\<close> never
  resolves the credential again: after any call the token is the one the constructor
  resolved, whatever the retry decorator does. At the concrete input below the platform is
  constructed while the token file holds \<open>old-token\<close>; the token is then rotated (the file
  holds \<open>new-token\<close> and the remote accepts only that); \<^verbatim>\<open>validate_credentials\<close> still
  presents \<open>old-token\<close> and fails, while a platform constructed after the rotation
  validates. \<^verbatim>\<open>NetlifyPlatform\<close> does resolve \<^verbatim>\<open>self.token\<close> again, but its request is sent
  by the \<^verbatim>\<open>api_integration\<close> object built at construction, with the old token.
\<close>

theorem github_validate_credentials_reuses_token:
  "token (snd (github_validate_credentials D E w R p)) = token p
   \<and> get_token GitHub world_new = Inr (Some ''new-token'')
   \<and> github_init (Some ''user/repo'') ''branch'' ''gh-pages'' True world_old = Inr github_old
   \<and> github_validate_credentials D errors_plain world_new remote_rotated github_old
      = (Inr (False, ''Bad credentials''), github_old\<lparr>github_client := Some ''old-token''\<rparr>)
   \<and> github_init (Some ''user/repo'') ''branch'' ''gh-pages'' True world_new = Inr github_new
   \<and> fst (github_validate_credentials D errors_plain world_new remote_rotated github_new)
      = Inr (True, ''GitHub credentials valid for user: user'')
   \<and> netlify_init (Some ''site'') None True world_old = Inr netlify_old
   \<and> netlify_validate_credentials D errors_plain world_new remote_rotated netlify_old
      = (Inr (False, ''Invalid token''), netlify_old\<lparr>token := Some ''new-token''\<rparr>)"
proof (intro conjI)
  show "token (snd (github_validate_credentials D E w R p)) = token p"
    by (rule github_token_kept)
  show "get_token GitHub world_new = Inr (Some ''new-token'')"
    by (simp add: run_defs)
  show "github_init (Some ''user/repo'') ''branch'' ''gh-pages'' True world_old = Inr github_old"
    by (simp add: run_defs)
  show "github_validate_credentials D errors_plain world_new remote_rotated github_old
      = (Inr (False, ''Bad credentials''), github_old\<lparr>github_client := Some ''old-token''\<rparr>)"
    by (simp add: run_defs)
  show "github_init (Some ''user/repo'') ''branch'' ''gh-pages'' True world_new = Inr github_new"
    by (simp add: run_defs)
  show "fst (github_validate_credentials D errors_plain world_new remote_rotated github_new)
      = Inr (True, ''GitHub credentials valid for user: user'')"
    by (simp add: run_defs)
  show "netlify_init (Some ''site'') None True world_old = Inr netlify_old"
    by (simp add: run_defs)
  show "netlify_validate_credentials D errors_plain world_new remote_rotated netlify_old
      = (Inr (False, ''Invalid token''), netlify_old\<lparr>token := Some ''new-token''\<rparr>)"
    by (simp add: run_defs)
qed

subsection \<open>Claim C4\<close>

text \<open>
  C4 (the code departs from the claim). With a configured site and valid credentials,
  \<^verbatim>\<open>NetlifyPlatform.prepare_deployment\<close>, which has no \<^verbatim>\<open>try\<close> block, raises the
  \<^verbatim>\<open>PermissionError\<close> of \<^verbatim>\<open>build_path.exists()\<close> when the build path may not be inspected,
  whatever the retry decorator does (last conjunct). Moreover, for a \<^verbatim>\<open>NetlifyPlatform\<close>
  with a valid token and no configured site, the body of \<^verbatim>\<open>validate_credentials\<close> creates
  the site, stores its identifier and then evaluates \<^verbatim>\<open>self.logger.info(...)\<close>; no class of
  the platform defines \<^verbatim>\<open>logger\<close>, the statement is outside every \<^verbatim>\<open>try\<close>, and the
  \<^verbatim>\<open>AttributeError\<close> leaves the method body. It is not a transient failure; under a
  decorator that raises fatal exceptions again (\<open>policy_reraise\<close>) it crosses
  \<^verbatim>\<open>validate_credentials\<close> and \<^verbatim>\<open>prepare_deployment\<close>.
\<close>

theorem netlify_validate_credentials_raises:
  "netlify_init None None True world_all = Inr netlify_fresh
   \<and> netlify_validate_credentials_body errors_plain world_all remote_ok netlify_fresh
     = (Inl (AttributeError ''NetlifyPlatform object has no attribute logger''),
        netlify_fresh\<lparr>site_id := Some ''new-id''\<rparr>)
   \<and> netlify_validate_credentials policy_reraise errors_plain world_all remote_ok netlify_fresh
     = (Inl (AttributeError ''NetlifyPlatform object has no attribute logger''),
        netlify_fresh\<lparr>site_id := Some ''new-id''\<rparr>)
   \<and> netlify_prepare_deployment policy_reraise errors_plain world_all remote_ok (Inr True)
        ''proj/build'' netlify_fresh
     = (Inl (AttributeError ''NetlifyPlatform object has no attribute logger''),
        netlify_fresh\<lparr>site_id := Some ''new-id''\<rparr>)
   \<and> netlify_init (Some ''site'') None True world_all = Inr netlify_site
   \<and> netlify_prepare_deployment D errors_plain world_all remote_ok
        (Inl (OSError ''[Errno 13] Permission denied: proj/build'')) ''proj/build'' netlify_site
     = (Inl (OSError ''[Errno 13] Permission denied: proj/build''), netlify_site)"
  by (simp add: run_defs netlify_prepare_deployment_def)

subsection \<open>Claim C9\<close>

text \<open>
  C9 (the code departs from the claim). For Netlify, Vercel and Railway the file
  \<^verbatim>\<open>_get_token\<close> reads is the file \<^verbatim>\<open>auth setup\<close> writes and \<^verbatim>\<open>auth clear\<close> removes. For
  GitHub it is not: the commands use \<^verbatim>\<open>.deployx_github_token\<close>, the platform reads
  \<^verbatim>\<open>.deployx_token\<close>. In an empty working directory with no CLI tool and no environment
  variable, the token \<^verbatim>\<open>auth setup github\<close> has just saved is not found by
  \<^verbatim>\<open>GitHubPlatform._get_token\<close>, the token test of the setup therefore fails and the setup
  removes the file again; and \<^verbatim>\<open>auth clear github\<close> leaves the file the platform reads in
  place.
\<close>

theorem github_token_file_mismatch:
  "token_file Netlify = auth_token_file (backend_id Netlify)
   \<and> token_file Vercel = auth_token_file (backend_id Vercel)
   \<and> token_file Railway = auth_token_file (backend_id Railway)
   \<and> token_file GitHub = ''.deployx_token''
   \<and> auth_token_file (backend_id GitHub) = ''.deployx_github_token''
   \<and> get_token GitHub
        (world_none\<lparr>files := (files world_none)(auth_token_file ''github'' := Content ''ghp_x'')\<rparr>)
      = Inr None
   \<and> get_token Netlify
        (world_none\<lparr>files := (files world_none)(auth_token_file ''netlify'' := Content ''nfp_x'')\<rparr>)
      = Inr (Some ''nfp_x'')
   \<and> fst (setup_platform_auth ''github'' ''ghp_x'' False
             (test_github_token D errors_plain world_none remote_ok True) (files world_none))
      = False
   \<and> snd (auth_clear_command ''github'' False
             ((files world_none)(''.deployx_token'' := Content ''ghp_x''))) ''.deployx_token''
      = Content ''ghp_x''"
  by (simp add: run_defs auth_token_file_def setup_platform_auth_def test_github_token_def
        auth_clear_command_def auth_platforms_def lower_def lower_char_def)

subsection \<open>Claim C1\<close>

lemma status_mk_status: "status (mk_status s m u) = Some s"
  by (simp add: mk_status_def deployment_status_def)

text \<open>The GitHub, Vercel and Railway platforms write every status as a literal.\<close>

lemma github_pages_status_in: "status (github_pages_status pages p) \<in> platform_statuses"
  by (auto simp: github_pages_status_def platform_statuses_def status_mk_status
      split: option.splits sum.splits exn.splits)

lemma github_status_in:
  "status (fst (github_get_status D E w R pages p d)) \<in> platform_statuses"
  by (auto simp: github_get_status_def github_get_deployment_status_def status_mk_status
        github_pages_status_in
      split: prod.splits sum.splits)
     (simp add: platform_statuses_def)+

lemma vercel_status_in: "status (vercel_get_status p d) \<in> platform_statuses"
  by (auto simp: vercel_get_status_def vercel_get_deployment_status_def status_mk_status
        platform_statuses_def split: option.splits)

lemma railway_status_in: "status (railway_get_status info p d) \<in> platform_statuses"
  by (auto simp: railway_get_status_def railway_get_deployment_status_def status_mk_status
        platform_statuses_def split: option.splits prod.splits)

text \<open>
  C1 (the code departs from the claim). \<^verbatim>\<open>NetlifyPlatform.get_deployment_status\<close> looks
  the raw state up with \<^verbatim>\<open>status_map.get(status, status)\<close>: a raw state that is not in the
  table becomes the status itself. For the raw state \<open>weird-state\<close> the status returned is
  \<open>weird-state\<close>, not \<open>unknown\<close> (the message keeps the raw value); for a JSON \<^verbatim>\<open>null\<close> it is
  \<^verbatim>\<open>None\<close>; and the table sends \<open>ready\<close> to \<open>deployed\<close>. None of these is one of the five
  canonical values. A raw state of the table other than \<open>ready\<close>, such as \<open>building\<close>, and
  an absent state give a canonical value.
\<close>

theorem status_not_canonical:
  "netlify_get_status (\<lambda>t s. Inr (200, [(StateText ''weird-state'', None)])) netlify_site None
     = \<lparr>status = Some ''weird-state'', status_url = None, last_updated = None,
        status_message = ''Netlify deployment: weird-state''\<rparr>
   \<and> status (netlify_get_status (\<lambda>t s. Inr (200, [(StateText ''weird-state'', None)]))
               netlify_site None) \<notin> Some ` canonical_statuses
   \<and> netlify_get_status (\<lambda>t s. Inr (200, [(StateNull, None)])) netlify_site None
     = \<lparr>status = None, status_url = None, last_updated = None,
        status_message = ''Netlify deployment: None''\<rparr>
   \<and> status (netlify_get_status (\<lambda>t s. Inr (200, [(StateText ''ready'', None)])) netlify_site None)
     = Some ''deployed''
   \<and> Some ''deployed'' \<notin> Some ` canonical_statuses
   \<and> status (netlify_get_status (\<lambda>t s. Inr (200, [(StateText ''building'', None)]))
               netlify_site None) = Some ''building''
   \<and> status (netlify_get_status (\<lambda>t s. Inr (200, [(StateAbsent, None)])) netlify_site None)
     = Some ''unknown''"
  by (simp add: netlify_get_status_def netlify_get_deployment_status_def netlify_site_def
        netlify_fresh_def netlify_api_get_deployment_status_def mapped_status_def
        status_map_def mk_status_def deployment_status_def canonical_statuses_def
        when_truthy_def truthy_def str_opt_def image_def)

subsection \<open>Claim C6\<close>

lemma probe_suffix_returns:
  assumes "probe_suffix get_repo username base counter = Some y"
  shows "\<exists>k\<ge>counter. \<not> get_repo k (username @ ''/'' @ base @ ''-'' @ str_nat k)"
proof (rule probe_suffix.raw_induct
    [where P = "\<lambda>g u b c y. \<exists>k\<ge>c. \<not> g k (u @ ''/'' @ b @ ''-'' @ str_nat k)", OF _ assms])
  fix probe :: "(nat \<Rightarrow> string \<Rightarrow> bool) \<Rightarrow> string \<Rightarrow> string \<Rightarrow> nat \<Rightarrow> string option"
    and g u b c y
  assume IH: "\<And>g u b c y. probe g u b c = Some y \<Longrightarrow>
                \<exists>k\<ge>c. \<not> g k (u @ ''/'' @ b @ ''-'' @ str_nat k)"
    and step: "(let new_name = b @ ''-'' @ str_nat c in
                if g c (u @ ''/'' @ new_name) then probe g u b (c + 1) else Some new_name) = Some y"
  show "\<exists>k\<ge>c. \<not> g k (u @ ''/'' @ b @ ''-'' @ str_nat k)"
  proof (cases "g c (u @ ''/'' @ b @ ''-'' @ str_nat c)")
    case True
    with step have "probe g u b (c + 1) = Some y" by (simp add: Let_def)
    from IH [OF this] obtain k where "k \<ge> c + 1" "\<not> g k (u @ ''/'' @ b @ ''-'' @ str_nat k)"
      by blast
    then show ?thesis by (intro exI [of _ k]) simp
  next
    case False
    then show ?thesis by blast
  qed
qed

lemma probe_suffix_diverges:
  "(\<And>k name. get_repo k name) \<Longrightarrow> probe_suffix get_repo username base counter = None"
  using probe_suffix_returns [of get_repo username base counter]
  by (cases "probe_suffix get_repo username base counter") auto

lemma probe_suffix_upto:
  "counter \<le> Suc n \<Longrightarrow>
   probe_suffix (\<lambda>k name. k \<le> n) username base counter = Some (base @ ''-'' @ str_nat (Suc n))"
proof (induction "Suc n - counter" arbitrary: counter)
  case 0
  then have "counter = Suc n" by simp
  then show ?case by (subst probe_suffix.simps) (simp add: Let_def)
next
  case (Suc d)
  then have le: "counter \<le> n" and d: "d = Suc n - (counter + 1)" by simp_all
  from Suc(1) [OF d] le
  have "probe_suffix (\<lambda>k name. k \<le> n) username base (counter + 1)
          = Some (base @ ''-'' @ str_nat (Suc n))" by simp
  with le show ?case by (subst probe_suffix.simps) (simp add: Let_def)
qed

text \<open>
  C6 (the code departs from the claim). The probing loop of
  \<^verbatim>\<open>_generate_suggested_name\<close> has no bound. When every lookup finds a repository the call
  never returns; and for every \<open>n\<close>, when exactly the lookups number 0 to \<open>n\<close> find a
  repository, the call makes \<open>n + 2\<close> lookups before it returns the name with the suffix
  \<open>n + 1\<close>: no fixed number of attempts bounds the loop.
\<close>

theorem suggested_name_probing_unbounded:
  "generate_suggested_name (\<lambda>k name. True) project username = None
   \<and> generate_suggested_name (\<lambda>k name. k \<le> n) project username
       = Some (base_name project @ ''-'' @ str_nat (Suc n))"
  by (simp add: generate_suggested_name_def probe_suffix_diverges probe_suffix_upto)

subsection \<open>The clearing step of the branch deployment\<close>




lemmas tree_defs =
  project_tree_def build_tree_def env_clean_def env_unchanged_def env_locked_def
  protected_items_def left_behind_def

subsection \<open>Claim C8\<close>




subsection \<open>Claim C3\<close>

lemma open_repo_ops: "open_repo env = Inr ops \<Longrightarrow> Commit \<notin> set ops \<and> Push \<notin> set ops"
  by (auto simp: open_repo_def split: option.splits)

lemma try_checkout_ops: "try_checkout env args = Inr ops \<Longrightarrow> Commit \<notin> set ops \<and> Push \<notin> set ops"
  by (auto simp: try_checkout_def split: option.splits)

lemma checkout_branch_ops:
  "checkout_branch env br = Inr ops \<Longrightarrow> Commit \<notin> set ops \<and> Push \<notin> set ops"
  unfolding checkout_branch_def
  by (auto split: sum.splits exn.splits dest: try_checkout_ops)

lemma prepare_worktree_ops:
  "prepare_worktree env br output_dir = Inr (ops, tree) \<Longrightarrow> Commit \<notin> set ops \<and> Push \<notin> set ops"
  unfolding prepare_worktree_def
  by (auto split: sum.splits option.splits prod.splits dest: open_repo_ops checkout_branch_ops)

lemma deploy_to_branch_success_url:
  "success (fst (deploy_to_branch E repo br env output_dir)) \<Longrightarrow>
   url (fst (deploy_to_branch E repo br env output_dir)) = Some (generate_pages_url repo)"
  by (auto simp: deploy_to_branch_def mk_result_def deploy_failed_def
      split: if_splits sum.splits option.splits prod.splits exn.splits)

lemma deploy_to_branch_nothing_to_commit:
  assumes "output_exists env"
    and "prepare_worktree env br output_dir = Inr (ops, tree)"
    and "git_add env = None"
    and "git_commit env = Some (GitCommandError m)"
    and "contains m ''nothing to commit''"
  shows "deploy_to_branch E repo br env output_dir
           = (mk_result True ''No changes to deploy'' (Some (generate_pages_url repo)) None,
              ops @ [Add])"
  using assms by (simp add: deploy_to_branch_def)

text \<open>
  C3. A branch deployment whose steps up to \<^verbatim>\<open>git add\<close> go through and whose commit raises
  a \<^verbatim>\<open>GitCommandError\<close> that says \<open>nothing to commit\<close> returns \<open>success = True\<close> with the
  message \<open>No changes to deploy\<close> and the Pages URL of the repository, which is the URL every
  successful deployment of the same platform returns (so the one a first, successful run
  returned); no commit is created and nothing is pushed.
\<close>

theorem nothing_to_commit_is_success:
  assumes "deploy_method p = ''branch''"
    and "output_exists env"
    and "prepare_worktree env (branch p) output_dir = Inr (ops, tree)"
    and "git_add env = None"
    and "git_commit env = Some (GitCommandError m)"
    and "contains m ''nothing to commit''"
    and "success (fst (github_execute_deployment E p first_env output_dir docs))"
  shows "fst (github_execute_deployment E p env output_dir docs)
           = \<lparr>success = True, url = Some (generate_pages_url (deployment_repo_name p)),
              message = ''No changes to deploy'', deployment_id = None\<rparr>
         \<and> url (fst (github_execute_deployment E p env output_dir docs))
             = url (fst (github_execute_deployment E p first_env output_dir docs))
         \<and> Commit \<notin> set (snd (github_execute_deployment E p env output_dir docs))
         \<and> Push \<notin> set (snd (github_execute_deployment E p env output_dir docs))"
proof -
  have run: "github_execute_deployment E p env output_dir docs
      = (mk_result True ''No changes to deploy''
           (Some (generate_pages_url (deployment_repo_name p))) None, ops @ [Add])"
    using assms(1) deploy_to_branch_nothing_to_commit [OF assms(2-6)]
    by (simp add: github_execute_deployment_def)
  have first: "url (fst (github_execute_deployment E p first_env output_dir docs))
      = Some (generate_pages_url (deployment_repo_name p))"
    using assms(1,7) deploy_to_branch_success_url
    by (simp add: github_execute_deployment_def)
  have ops: "Commit \<notin> set ops \<and> Push \<notin> set ops"
    using assms(3) by (rule prepare_worktree_ops)
  show ?thesis using run first ops by (simp add: mk_result_def)
qed

theorem nothing_to_commit_is_success_witness:
  "prepare_worktree env_unchanged ''gh-pages'' ''build''
     = Inr ([Checkout [''gh-pages'']],
            [\<lparr>entry_name = ''.git'', entry_is_dir = True, content = ''objects''\<rparr>,
             \<lparr>entry_name = ''build'', entry_is_dir = True, content = ''site''\<rparr>,
             \<lparr>entry_name = ''CNAME'', entry_is_dir = False, content = ''example.org''\<rparr>,
             \<lparr>entry_name = ''index.html'', entry_is_dir = False, content = ''<html/>''\<rparr>])
   \<and> success (fst (github_execute_deployment errors_plain pages_platform env_clean ''build''
                      (mk_result False [] None None, [])))
   \<and> fst (github_execute_deployment errors_plain pages_platform env_unchanged ''build''
            (mk_result False [] None None, []))
       = \<lparr>success = True, url = Some ''https://user.github.io/repo'',
          message = ''No changes to deploy'', deployment_id = None\<rparr>
   \<and> url (fst (github_execute_deployment errors_plain pages_platform env_unchanged ''build''
                 (mk_result False [] None None, [])))
       = url (fst (github_execute_deployment errors_plain pages_platform env_clean ''build''
                     (mk_result False [] None None, [])))
   \<and> Commit \<notin> set (snd (github_execute_deployment errors_plain pages_platform env_unchanged
                             ''build'' (mk_result False [] None None, [])))
   \<and> Push \<notin> set (snd (github_execute_deployment errors_plain pages_platform env_unchanged
                           ''build'' (mk_result False [] None None, [])))"
proof -
  have p: "deploy_method pages_platform = ''branch''" "branch pages_platform = ''gh-pages''"
    "deployment_repo_name pages_platform = Some ''user/repo''"
    by (simp_all add: pages_platform_def github_old_def)
  have ex: "output_exists env_unchanged"
    and add: "git_add env_unchanged = None"
    and commit: "git_commit env_unchanged
      = Some (GitCommandError ''On branch gh-pages nothing to commit, working tree clean'')"
    by (simp_all add: tree_defs)
  have says: "contains ''On branch gh-pages nothing to commit, working tree clean''
      ''nothing to commit''"
    by simp
  have prep: "prepare_worktree env_unchanged (branch pages_platform) ''build''
     = Inr ([Checkout [''gh-pages'']],
            [\<lparr>entry_name = ''.git'', entry_is_dir = True, content = ''objects''\<rparr>,
             \<lparr>entry_name = ''build'', entry_is_dir = True, content = ''site''\<rparr>,
             \<lparr>entry_name = ''CNAME'', entry_is_dir = False, content = ''example.org''\<rparr>,
             \<lparr>entry_name = ''index.html'', entry_is_dir = False, content = ''<html/>''\<rparr>])"
    by (simp add: p tree_defs prepare_worktree_def open_repo_def checkout_branch_def
          try_checkout_def put_entry_def remove_dest_def)
  have first: "success (fst (github_execute_deployment errors_plain pages_platform env_clean
      ''build'' (mk_result False [] None None, [])))"
    by (simp add: p tree_defs github_execute_deployment_def deploy_to_branch_def
          prepare_worktree_def open_repo_def checkout_branch_def try_checkout_def
          put_entry_def remove_dest_def mk_result_def)
  have pages: "generate_pages_url (Some ''user/repo'') = ''https://user.github.io/repo''"
    by (simp add: generate_pages_url_def)
  note run = nothing_to_commit_is_success [OF p(1) ex prep add commit says first,
      unfolded p pages]
  show ?thesis
    using run prep [unfolded p] first by blast
qed

subsection \<open>Claim C5\<close>

lemma deploy_site_cleans_up:
  "build_exists env \<Longrightarrow> mktemp env = Inr zip_path \<Longrightarrow> zip_write env = None \<Longrightarrow>
   unlink env = None \<Longrightarrow> snd (deploy_site env tmp) = tmp - {zip_path}"
  by (auto simp: deploy_site_def create_deployment_zip_def split: sum.splits)

lemma deploy_site_upload_ok:
  "netlify_execute_deployment world_all env_upload_ok netlify_api_site {}
     = (mk_result True ''Deployment successful'' (Some ''https://site.netlify.app'') None, {})"
  by (simp add: netlify_execute_deployment_def netlify_deploy_without_cli_def
        netlify_api_site_def netlify_site_def netlify_fresh_def
        deploy_site_def create_deployment_zip_def upload_zip_def env_upload_ok_def
        truthy_def)

text \<open>
  C5 (the code departs from the claim). The archive is removed by a \<^verbatim>\<open>finally\<close> clause that
  guards the upload only; \<^verbatim>\<open>_create_deployment_zip\<close> runs before it. When writing the
  archive fails (here the build directory holds a file the process may not read), the
  temporary file, which already exists, is still on disk after \<^verbatim>\<open>execute_deployment\<close> has
  returned its failure.
\<close>

theorem bundle_left_behind_when_zip_fails:
  "netlify_execute_deployment world_all env_unreadable netlify_api_site {}
     = (mk_result False ''Deployment error: Permission denied: proj/build/secret.key'' None None,
        {''/tmp/tmpa1b2c3.zip''})"
  by (simp add: netlify_execute_deployment_def netlify_deploy_without_cli_def
        netlify_api_site_def netlify_site_def netlify_fresh_def
        deploy_site_def create_deployment_zip_def deploy_error_def env_unreadable_def
        env_upload_ok_def truthy_def)

end
